theory Spec2Isabelle
  imports Main "HOL-Library.Word"
begin

unbundle bit_operations_syntax

section \<open>Data model of idevicebtlogger\<close>

type_synonym u8 = "8 word"
type_synonym u16 = "16 word"
type_synonym u32 = "32 word"

text \<open>Opaque handles returned by the device library and by libpcap.\<close>

type_synonym handle = nat

text \<open>
  What a C run can do that a HOL function cannot: read or write outside the buffer it
  was handed, or pass a null pointer to \<^verbatim>\<open>strcmp\<close>.
\<close>

datatype fault = Out_Of_Bounds | Null_Pointer

datatype log_format_t = LOG_FORMAT_PACKETLOGGER | LOG_FORMAT_PCAP

text \<open>
  \<^verbatim>\<open>struct pcap_pkthdr\<close>: the timestamp (\<^verbatim>\<open>ts.tv_sec\<close>, \<^verbatim>\<open>ts.tv_usec\<close>), the
  number of bytes present and the length of the packet. The two timestamp fields are
  assigned from \<^verbatim>\<open>ntohl\<close> results, so they hold 32-bit values.
\<close>

record pcap_pkthdr =
  tv_sec :: u32
  tv_usec :: u32
  caplen :: u32
  len :: u32

text \<open>
  Modelled from the spec: the declarations of \<^verbatim>\<open>libimobiledevice.h\<close> are not among the
  sources. A device event carries its kind (attach, detach, paired), the device's UDID
  and the transport kind (local bus or network). The event's \<^verbatim>\<open>udid\<close> is \<open>ev_udid\<close>
  here, since \<open>udid\<close> is the program's variable.
\<close>

datatype idevice_event_type = IDEVICE_DEVICE_ADD | IDEVICE_DEVICE_REMOVE | IDEVICE_DEVICE_PAIRED

datatype idevice_connection_type = CONNECTION_USBMUXD | CONNECTION_NETWORK

record idevice_event_t =
  event :: idevice_event_type
  ev_udid :: string
  conn_type :: idevice_connection_type

datatype lookup_option = IDEVICE_LOOKUP_USBMUX | IDEVICE_LOOKUP_NETWORK

text \<open>
  Every call that leaves the program (standard streams, the output file, libpcap, the
  device library) is recorded, in order, with its arguments. \<open>Pcap_dump d h bs\<close> is
  \<^verbatim>\<open>pcap_dump(d, &h, p)\<close> where \<open>bs\<close> are the bytes of the buffer from \<^verbatim>\<open>p\<close> to its
  end; libpcap writes the header \<open>h\<close> and then \<open>caplen h\<close> bytes read from \<^verbatim>\<open>p\<close>.
\<close>

datatype effect =
    Stdout string
  | Stderr string
  | Print_usage bool
  | Fflush_all
  | Write_fd int "u8 list"
  | Close_fd int
  | Pcap_dump "handle option" pcap_pkthdr "u8 list"
  | Pcap_dump_flush "handle option"
  | Pcap_dump_close handle
  | Pcap_dump_open string
  | Open_file string
  | Get_device_list
  | Idevice_new "string option" lookup_option
  | Lockdownd_handshake
  | Start_service
  | Start_capture "handle option" log_format_t
  | Client_free "handle option"
  | Idevice_free handle
  | Set_debug_level
  | Print_version
  | Event_subscribe
  | Event_unsubscribe

text \<open>The file's static variables, and the record of the calls made so far.\<close>

record globals =
  quit_flag :: int
  exit_on_disconnect :: int
  udid :: "string option"
  device :: "handle option"
  bt_packet_logger :: "handle option"
  use_network :: int
  out_filename :: "string option"
  log_format_string :: "string option"
  pcap_dumper :: "handle option"
  packetlogger_fd :: int
  log_format :: log_format_t
  trace :: "effect list"

definition initial_globals :: globals where
  "initial_globals =
     \<lparr>quit_flag = 0, exit_on_disconnect = 0, udid = None, device = None,
      bt_packet_logger = None, use_network = 0, out_filename = None,
      log_format_string = None, pcap_dumper = None, packetlogger_fd = - 1,
      log_format = LOG_FORMAT_PACKETLOGGER, trace = []\<rparr>"

definition emit :: "effect list \<Rightarrow> globals \<Rightarrow> globals" where
  "emit es s = s\<lparr>trace := trace s @ es\<rparr>"

section \<open>The pcap callback\<close>

definition HCI_COMMAND :: u8 where "HCI_COMMAND = 0x00"
definition HCI_EVENT :: u8 where "HCI_EVENT = 0x01"
definition SENT_ACL_DATA :: u8 where "SENT_ACL_DATA = 0x02"
definition RECV_ACL_DATA :: u8 where "RECV_ACL_DATA = 0x03"

text \<open>
  \<^verbatim>\<open>LIBPCAP_BT_PHDR_SENT\<close> is 0 and \<^verbatim>\<open>LIBPCAP_BT_PHDR_RECV\<close> is \<^verbatim>\<open>htonl(1)\<close>: stored
  as a \<^verbatim>\<open>uint32_t\<close>, each leaves in memory the big-endian bytes of 0 and of 1 on any
  host. The model keeps the number whose big-endian bytes are stored.
\<close>

definition LIBPCAP_BT_PHDR_SENT :: u32 where "LIBPCAP_BT_PHDR_SENT = 0"
definition LIBPCAP_BT_PHDR_RECV :: u32 where "LIBPCAP_BT_PHDR_RECV = 1"

text \<open>
  Modelled from the spec: \<^verbatim>\<open>bt_packet_logger_header_t\<close> is declared in a header that is
  not among the sources. It is three 32-bit fields in wire order: the declared length at
  byte 0, the timestamp's seconds at byte 4 and its microseconds at byte 8; the type
  byte follows at byte 12.
\<close>

definition sizeof_header :: nat where "sizeof_header = 12"
definition offsetof_length :: nat where "offsetof_length = 0"
definition offsetof_ts_secs :: nat where "offsetof_ts_secs = 4"
definition offsetof_ts_usecs :: nat where "offsetof_ts_usecs = 8"

text \<open>\<^verbatim>\<open>ntohl\<close> of a \<^verbatim>\<open>uint32_t\<close> read at byte \<open>i\<close>: the big-endian value of four bytes.\<close>

definition ntohl_at :: "u8 list \<Rightarrow> nat \<Rightarrow> u32" where
  "ntohl_at data i =
     push_bit 24 (ucast (data ! i)) OR push_bit 16 (ucast (data ! (i + 1)))
       OR push_bit 8 (ucast (data ! (i + 2))) OR ucast (data ! (i + 3))"

text \<open>\<^verbatim>\<open>*(uint32_t*)&data[i] = htonl(v)\<close>: the big-endian bytes of \<open>v\<close> at \<open>i .. i + 3\<close>.\<close>

definition store_htonl :: "u8 list \<Rightarrow> nat \<Rightarrow> u32 \<Rightarrow> u8 list" where
  "store_htonl data i v =
     data[i := ucast (drop_bit 24 v), i + 1 := ucast (drop_bit 16 v),
          i + 2 := ucast (drop_bit 8 v), i + 3 := ucast v]"

text \<open>The \<^verbatim>\<open>switch\<close> on the packet type: the UART type and the direction.\<close>

definition hci_h4_switch :: "u8 \<Rightarrow> u8 \<times> u32" where
  "hci_h4_switch packet_type =
     (if packet_type = HCI_EVENT then (0x04, LIBPCAP_BT_PHDR_RECV)
      else if packet_type = HCI_COMMAND then (0x01, LIBPCAP_BT_PHDR_SENT)
      else if packet_type = SENT_ACL_DATA then (0x02, LIBPCAP_BT_PHDR_SENT)
      else if packet_type = RECV_ACL_DATA then (0x02, LIBPCAP_BT_PHDR_RECV)
      else (packet_type, LIBPCAP_BT_PHDR_RECV))"

text \<open>
  The header that the callback fills in before it looks at anything else. The sums are
  taken in \<^verbatim>\<open>size_t\<close> and stored in 32-bit fields, so both are sums modulo \<open>2 ^ 32\<close>.
\<close>

definition pcap_header_of :: "u8 list \<Rightarrow> u16 \<Rightarrow> pcap_pkthdr" where
  "pcap_header_of data data_len =
     \<lparr>tv_sec = ntohl_at data offsetof_ts_secs,
      tv_usec = ntohl_at data offsetof_ts_usecs,
      caplen = ntohl_at data offsetof_length + 4,
      len = ucast data_len - 12 + 4\<rparr>"

definition nl :: string where
  "nl = [CHR 0x0A]"

definition length_warning :: string where
  "length_warning =
     ''WARNING: Packet length exceeded max size, corruption likely.'' @ nl @ '' ''"

text \<open>
  \<^verbatim>\<open>bt_packet_logger_callback_pcap(data, len, user_data)\<close>. \<open>data\<close> is the buffer the
  pointer addresses and \<open>data_len\<close> the byte count \<^verbatim>\<open>len\<close> passed with it (\<open>len\<close> is
  the header's field here);
  \<open>max_size\<close> stands for \<^verbatim>\<open>BT_MAX_PACKET_SIZE\<close>, whose definition is not among the
  sources. The result is the buffer as the callback leaves it and the new state.
\<close>

definition bt_packet_logger_callback_pcap ::
    "u32 \<Rightarrow> u8 list \<Rightarrow> u16 \<Rightarrow> globals \<Rightarrow> fault + (u8 list \<times> globals)" where
  "bt_packet_logger_callback_pcap max_size data data_len s =
     (if length data < sizeof_header then Inl Out_Of_Bounds
      else
        let offset = sizeof_header;
            pcap_header = pcap_header_of data data_len
        in
          if len pcap_header > max_size \<or> caplen pcap_header > max_size
          then Inr (data, emit [Stderr length_warning] s)
          else if length data \<le> offset then Inl Out_Of_Bounds
          else
            let packet_type = data ! offset;
                (hci_h4_type, direction) = hci_h4_switch packet_type
            in
              if hci_h4_type \<noteq> 0xff then
                let data1 = data[offset := hci_h4_type];
                    offset1 = offset - 4;
                    data2 = store_htonl data1 offset1 direction
                in Inr (data2,
                     emit [Pcap_dump (pcap_dumper s) pcap_header (drop offset1 data2),
                           Pcap_dump_flush (pcap_dumper s)] s)
              else Inr (data, s))"

section \<open>The PacketLogger callback\<close>

text \<open>\<^verbatim>\<open>write(packetlogger_fd, data, len)\<close>: the first \<open>data_len\<close> bytes, as they are.\<close>

definition bt_packet_logger_callback_packetlogger ::
    "u8 list \<Rightarrow> u16 \<Rightarrow> globals \<Rightarrow> fault + (u8 list \<times> globals)" where
  "bt_packet_logger_callback_packetlogger data data_len s =
     (if length data < unat data_len then Inl Out_Of_Bounds
      else Inr (data, emit [Write_fd (packetlogger_fd s) (take (unat data_len) data)] s))"

section \<open>Starting and stopping the capture\<close>

definition stop_logging :: "globals \<Rightarrow> globals" where
  "stop_logging s =
     (let s1 = emit [Fflush_all] s;
          s2 = (if bt_packet_logger s1 \<noteq> None
                then (emit [Client_free (bt_packet_logger s1)] s1)\<lparr>bt_packet_logger := None\<rparr>
                else s1);
          s3 = (case device s2 of
                  Some d \<Rightarrow> (emit [Idevice_free d] s2)\<lparr>device := None\<rparr>
                | None \<Rightarrow> s2)
      in s3)"

text \<open>
  What the device library answers to the four calls of \<^verbatim>\<open>start_logging\<close>: the device
  handle or a failure, whether the handshake succeeds, the client that
  \<^verbatim>\<open>bt_packet_logger_client_start_service\<close> leaves in \<^verbatim>\<open>bt_packet_logger\<close> (its return
  value is not looked at), and whether the capture starts.
\<close>

record start_env =
  new_device :: "handle option"
  handshake_ok :: bool
  new_service :: "handle option"
  capture_ok :: bool

text \<open>\<^verbatim>\<open>printf("%s", udid)\<close>.\<close>

definition udid_str :: "globals \<Rightarrow> string" where
  "udid_str s = (case udid s of Some u \<Rightarrow> u | None \<Rightarrow> ''(null)'')"

definition out_filename_str :: "globals \<Rightarrow> string" where
  "out_filename_str s = (case out_filename s of Some f \<Rightarrow> f | None \<Rightarrow> ''(null)'')"

text \<open>
  \<^verbatim>\<open>start_logging\<close>, with its return value. The error number printed after a failed
  handshake is left out of the message.
\<close>

definition start_logging :: "start_env \<Rightarrow> globals \<Rightarrow> int \<times> globals" where
  "start_logging env s =
     (let s1 = emit [Idevice_new (udid s)
                  (if use_network s \<noteq> 0 then IDEVICE_LOOKUP_NETWORK else IDEVICE_LOOKUP_USBMUX)] s
      in case new_device env of
        None \<Rightarrow>
          (- 1, emit [Stderr (''Device with udid '' @ udid_str s1 @ '' not found!?'' @ nl)] s1)
      | Some d \<Rightarrow>
          let s2 = emit [Lockdownd_handshake] (s1\<lparr>device := Some d\<rparr>) in
          if \<not> handshake_ok env then
            (- 1, (emit [Stderr (''ERROR: Could not connect to lockdownd'' @ nl),
                         Idevice_free d] s2)\<lparr>device := None\<rparr>)
          else
            let s3 = (emit [Start_service] s2)\<lparr>bt_packet_logger := new_service env\<rparr>;
                s4 = emit [Start_capture (bt_packet_logger s3) (log_format s3)] s3
            in
              if \<not> capture_ok env then
                (- 1, (emit [Stderr (''ERROR: Unable to start capturing bt_packet_logger.'' @ nl),
                             Client_free (bt_packet_logger s4), Idevice_free d] s4)
                        \<lparr>bt_packet_logger := None, device := None\<rparr>)
              else (0, emit [Stdout (''[connected:'' @ udid_str s4 @ '']'' @ nl), Fflush_all] s4))"

section \<open>Device events and signals\<close>

text \<open>
  \<^verbatim>\<open>device_event_cb\<close>. \<^verbatim>\<open>strcmp(udid, event->udid)\<close> with \<^verbatim>\<open>udid\<close> null is a fault.
\<close>

definition device_event_cb :: "start_env \<Rightarrow> idevice_event_t \<Rightarrow> globals \<Rightarrow> fault + globals" where
  "device_event_cb env ev s =
     (if use_network s \<noteq> 0 \<and> conn_type ev \<noteq> CONNECTION_NETWORK then Inr s
      else if \<not> use_network s \<noteq> 0 \<and> conn_type ev \<noteq> CONNECTION_USBMUXD then Inr s
      else if event ev = IDEVICE_DEVICE_ADD then
        (if bt_packet_logger s = None then
           let s1 = (if udid s = None then s\<lparr>udid := Some (ev_udid ev)\<rparr> else s) in
           (case udid s1 of
              None \<Rightarrow> Inl Null_Pointer
            | Some u \<Rightarrow>
                if u = ev_udid ev then
                  (case start_logging env s1 of (rc, s2) \<Rightarrow>
                     if rc \<noteq> 0
                     then Inr (emit [Stderr (''Could not start logger for udid ''
                                       @ udid_str s2 @ nl)] s2)
                     else Inr s2)
                else Inr s1)
         else Inr s)
      else if event ev = IDEVICE_DEVICE_REMOVE then
        (if bt_packet_logger s \<noteq> None then
           (case udid s of
              None \<Rightarrow> Inl Null_Pointer
            | Some u \<Rightarrow>
                if u = ev_udid ev then
                  let s1 = stop_logging s;
                      s2 = emit [Stdout (''[disconnected:'' @ udid_str s1 @ '']'' @ nl)] s1
                  in Inr (if exit_on_disconnect s2 \<noteq> 0
                          then s2\<lparr>quit_flag := quit_flag s2 + 1\<rparr> else s2)
                else Inr s)
         else Inr s)
      else Inr s)"

text \<open>\<^verbatim>\<open>clean_exit\<close>, the signal handler.\<close>

definition clean_exit :: "int \<Rightarrow> globals \<Rightarrow> globals" where
  "clean_exit sig s =
     (emit [Stderr (nl @ ''Exiting...'' @ nl)] s)\<lparr>quit_flag := quit_flag s + 1\<rparr>"

text \<open>
  The dispositions \<^verbatim>\<open>main\<close> installs first (outside Windows): \<^verbatim>\<open>clean_exit\<close> for the
  interrupt, terminate and quit signals, and the broken-pipe signal ignored.
\<close>

datatype signal = SIGINT | SIGTERM | SIGQUIT | SIGPIPE

definition signum :: "signal \<Rightarrow> int" where
  "signum sg = (case sg of SIGINT \<Rightarrow> 2 | SIGQUIT \<Rightarrow> 3 | SIGPIPE \<Rightarrow> 13 | SIGTERM \<Rightarrow> 15)"

definition deliver_signal :: "signal \<Rightarrow> globals \<Rightarrow> globals" where
  "deliver_signal sg s =
     (case sg of
        SIGINT \<Rightarrow> clean_exit (signum sg) s
      | SIGTERM \<Rightarrow> clean_exit (signum sg) s
      | SIGQUIT \<Rightarrow> clean_exit (signum sg) s
      | SIGPIPE \<Rightarrow> s)"

section \<open>The program\<close>

text \<open>
  What can happen while \<^verbatim>\<open>main\<close> sleeps: a signal, a device event (with the library's
  answers, should the event start a capture) or a frame from the device.
\<close>

datatype happening =
    Signal signal
  | Device_event start_env idevice_event_t
  | Frame "u8 list" u16

text \<open>
  Modelled from the spec: the packet logger service, which is not among the sources,
  delivers a frame to the callback registered by \<^verbatim>\<open>start_logging\<close> while a capture is
  running, and to nobody otherwise. The service owns the buffer.
\<close>

definition deliver_frame :: "u32 \<Rightarrow> u8 list \<Rightarrow> u16 \<Rightarrow> globals \<Rightarrow> fault + globals" where
  "deliver_frame max_size data data_len s =
     (if bt_packet_logger s = None then Inr s
      else map_sum id snd
        (case log_format s of
           LOG_FORMAT_PCAP \<Rightarrow> bt_packet_logger_callback_pcap max_size data data_len s
         | LOG_FORMAT_PACKETLOGGER \<Rightarrow> bt_packet_logger_callback_packetlogger data data_len s))"

definition deliver :: "u32 \<Rightarrow> happening \<Rightarrow> globals \<Rightarrow> fault + globals" where
  "deliver max_size h s =
     (case h of
        Signal sg \<Rightarrow> Inr (deliver_signal sg s)
      | Device_event env ev \<Rightarrow> device_event_cb env ev s
      | Frame data data_len \<Rightarrow> deliver_frame max_size data data_len s)"

fun run_batch :: "u32 \<Rightarrow> happening list \<Rightarrow> globals \<Rightarrow> fault + globals" where
  "run_batch max_size [] s = Inr s"
| "run_batch max_size (h # hs) s =
     (case deliver max_size h s of
        Inl f \<Rightarrow> Inl f
      | Inr s' \<Rightarrow> run_batch max_size hs s')"

text \<open>
  The values \<^verbatim>\<open>getopt_long\<close> hands to the option loop, in order: an option letter with
  its argument, or anything else (an unknown option, a missing argument).
\<close>

datatype cli_opt = Opt_d | Opt_h | Opt_u string | Opt_f string | Opt_n | Opt_x | Opt_v | Opt_other

text \<open>How a run ends: with an exit code, in a fault, or still waiting for a signal.\<close>

datatype outcome = Exited int globals | Crashed fault | Waiting globals

text \<open>
  The option loop: \<open>Inl\<close> is a \<^verbatim>\<open>return\<close> from \<^verbatim>\<open>main\<close>. \<open>Print_usage e\<close> is
  \<^verbatim>\<open>print_usage(argc, argv, e)\<close> and \<open>Print_version\<close> the line with the tool's name and
  version.
\<close>

fun parse_opts :: "cli_opt list \<Rightarrow> globals \<Rightarrow> outcome + globals" where
  "parse_opts [] s = Inr s"
| "parse_opts (Opt_d # cs) s = parse_opts cs (emit [Set_debug_level] s)"
| "parse_opts (Opt_u optarg # cs) s =
     (if optarg = []
      then Inl (Exited 2 (emit [Stderr (''ERROR: UDID must not be empty!'' @ nl),
                                Print_usage True] s))
      else parse_opts cs (s\<lparr>udid := Some optarg\<rparr>))"
| "parse_opts (Opt_f optarg # cs) s =
     (if optarg = []
      then Inl (Exited 2 (emit [Stderr (''ERROR: FORMAT must not be empty!'' @ nl),
                                Print_usage True] s))
      else parse_opts cs (s\<lparr>log_format_string := Some optarg\<rparr>))"
| "parse_opts (Opt_n # cs) s = parse_opts cs (s\<lparr>use_network := 1\<rparr>)"
| "parse_opts (Opt_x # cs) s = parse_opts cs (s\<lparr>exit_on_disconnect := 1\<rparr>)"
| "parse_opts (Opt_h # cs) s = Inl (Exited 0 (emit [Print_usage False] s))"
| "parse_opts (Opt_v # cs) s = Inl (Exited 0 (emit [Print_version] s))"
| "parse_opts (Opt_other # cs) s = Inl (Exited 2 (emit [Print_usage True] s))"

text \<open>The output file name: the first argument that is not an option.\<close>

definition main_output_file :: "string list \<Rightarrow> globals \<Rightarrow> outcome + globals" where
  "main_output_file positional s =
     (case positional of
        f # _ \<Rightarrow> Inr (emit [Stdout (''Output File: '' @ f @ nl)] (s\<lparr>out_filename := Some f\<rparr>))
      | [] \<Rightarrow> Inl (Exited 2 (emit [Print_usage True] s)))"

definition main_format :: "globals \<Rightarrow> outcome + globals" where
  "main_format s =
     (case log_format_string s of
        None \<Rightarrow> Inr s
      | Some f \<Rightarrow>
          if ''packetlogger'' = f then Inr (s\<lparr>log_format := LOG_FORMAT_PACKETLOGGER\<rparr>)
          else if ''pcap'' = f then Inr (s\<lparr>log_format := LOG_FORMAT_PCAP\<rparr>)
          else Inl (Exited 2 (emit [Stdout (''Unknown logging format: '' @ [CHR 0x27] @ f
                                      @ [CHR 0x27] @ nl), Print_usage True] s)))"

definition main_devices :: "int \<Rightarrow> globals \<Rightarrow> outcome + globals" where
  "main_devices num s =
     (let s1 = emit [Get_device_list] s in
      if num = 0 then
        (if udid s1 = None
         then Inl (Exited (- 1) (emit [Stderr (''No device found. Plug in a device or pass ''
                @ ''UDID with -u to wait for device to be available.'' @ nl)] s1))
         else Inr (emit [Stderr (''Waiting for device with UDID '' @ udid_str s1
                @ '' to become available...'' @ nl)] s1))
      else Inr s1)"

text \<open>
  Opening the output: \<open>dumper\<close> is what \<^verbatim>\<open>pcap_dump_open\<close> returns and \<open>fd\<close> what
  \<^verbatim>\<open>open\<close> returns. The error number printed after a failed \<^verbatim>\<open>open\<close> is left out.
\<close>

definition main_open :: "handle option \<Rightarrow> int \<Rightarrow> globals \<Rightarrow> outcome + globals" where
  "main_open dumper fd s =
     (case log_format s of
        LOG_FORMAT_PCAP \<Rightarrow>
          Inr ((emit [Stdout (''Output Format: PCAP'' @ nl),
                      Pcap_dump_open (out_filename_str s)] s)
                 \<lparr>pcap_dumper := dumper\<rparr>)
      | LOG_FORMAT_PACKETLOGGER \<Rightarrow>
          let s1 = (emit [Stdout (''Output Format: PacketLogger'' @ nl),
                          Open_file (out_filename_str s)] s)
                     \<lparr>packetlogger_fd := fd\<rparr>
          in if packetlogger_fd s1 < 0
             then Inl (Exited (- 2) (emit [Stderr (''Failed to open file ''
                         @ out_filename_str s1 @ nl)] s1))
             else Inr s1)"

text \<open>
  \<^verbatim>\<open>while (!quit_flag) sleep(1)\<close>: each sleep is a batch of happenings. When the
  batches run out and the flag is still 0, the program is still waiting.
\<close>

fun wait_loop :: "u32 \<Rightarrow> happening list list \<Rightarrow> globals \<Rightarrow> outcome + globals" where
  "wait_loop max_size [] s = (if \<not> quit_flag s \<noteq> 0 then Inl (Waiting s) else Inr s)"
| "wait_loop max_size (b # bs) s =
     (if \<not> quit_flag s \<noteq> 0 then
        (case run_batch max_size b s of
           Inl f \<Rightarrow> Inl (Crashed f)
         | Inr s' \<Rightarrow> wait_loop max_size bs s')
      else Inr s)"

definition main_teardown :: "globals \<Rightarrow> outcome" where
  "main_teardown s =
     (let s1 = emit [Event_unsubscribe] s;
          s2 = stop_logging s1;
          s3 = (case pcap_dumper s2 of
                  Some d \<Rightarrow> emit [Pcap_dump_close d] s2
                | None \<Rightarrow> s2);
          s4 = (if packetlogger_fd s3 \<ge> 0 then emit [Close_fd (packetlogger_fd s3)] s3 else s3)
      in Exited 0 s4)"

text \<open>What \<^verbatim>\<open>main\<close> is given: the command line as parsed, and the world's answers.\<close>

record main_env =
  opts :: "cli_opt list"
  positional :: "string list"
  num_devices :: int
  pcap_dump_open_result :: "handle option"
  open_result :: int
  batches :: "happening list list"

text \<open>Sequencing with early return.\<close>

definition and_then :: "outcome + globals \<Rightarrow> (globals \<Rightarrow> outcome + globals) \<Rightarrow> outcome + globals" where
  "and_then r f = (case r of Inl out \<Rightarrow> Inl out | Inr s \<Rightarrow> f s)"

definition main_startup :: "main_env \<Rightarrow> outcome + globals" where
  "main_startup env =
     and_then (parse_opts (opts env) initial_globals) (\<lambda>s1.
     and_then (main_output_file (positional env) s1) (\<lambda>s2.
     and_then (main_format s2) (\<lambda>s3.
     and_then (main_devices (num_devices env) s3) (\<lambda>s4.
     and_then (main_open (pcap_dump_open_result env) (open_result env) s4) (\<lambda>s5.
     Inr (emit [Event_subscribe] s5))))))"

definition main :: "u32 \<Rightarrow> main_env \<Rightarrow> outcome" where
  "main max_size env =
     (case and_then (main_startup env) (wait_loop max_size (batches env)) of
        Inl out \<Rightarrow> out
      | Inr s \<Rightarrow> main_teardown s)"

section \<open>Vocabulary of the properties\<close>

text \<open>
  The filter at the head of \<^verbatim>\<open>device_event_cb\<close>, as a predicate: the event's transport
  kind is the configured one.
\<close>

definition transport_matches :: "globals \<Rightarrow> idevice_event_t \<Rightarrow> bool" where
  "transport_matches s ev =
     (if use_network s \<noteq> 0 then conn_type ev = CONNECTION_NETWORK
      else conn_type ev = CONNECTION_USBMUXD)"

text \<open>An attach event of the configured transport kind.\<close>

definition matching_attach :: "globals \<Rightarrow> happening \<Rightarrow> bool" where
  "matching_attach s h =
     (case h of
        Device_event env ev \<Rightarrow> transport_matches s ev \<and> event ev = IDEVICE_DEVICE_ADD
      | _ \<Rightarrow> False)"

text \<open>The calls that close the output, and the calls of the teardown.\<close>

definition is_sink_close :: "effect \<Rightarrow> bool" where
  "is_sink_close e = (case e of Pcap_dump_close d \<Rightarrow> True | Close_fd fd \<Rightarrow> True | _ \<Rightarrow> False)"

definition is_teardown :: "effect \<Rightarrow> bool" where
  "is_teardown e = (is_sink_close e \<or> e = Event_unsubscribe)"

text \<open>What no signal, event or frame touches: the sink, and the calls of the teardown.\<close>

definition sink_view :: "globals \<Rightarrow> handle option \<times> int \<times> log_format_t \<times> effect list" where
  "sink_view s = (pcap_dumper s, packetlogger_fd s, log_format s, filter is_teardown (trace s))"

text \<open>Before the output is opened: no dumper, no descriptor, no teardown call.\<close>

definition unopened :: "globals \<Rightarrow> bool" where
  "unopened s = (pcap_dumper s = None \<and> packetlogger_fd s = - 1
     \<and> filter is_teardown (trace s) = [])"

section \<open>Example frames and states\<close>

text \<open>
  An event frame: declared length 10, timestamp 1 s and 2 us, type byte 0x01, nine bytes
  of payload; 22 bytes in all.
\<close>

definition frame_event :: "u8 list" where
  "frame_event =
     [0, 0, 0, 10, 0, 0, 0, 1, 0, 0, 0, 2, 0x01, 0x0e, 0x04, 0x01, 0x03, 0x0c, 0x00, 0x07, 0x08, 0x09]"

text \<open>The same frame with the type byte 0xff.\<close>

definition frame_ff :: "u8 list" where
  "frame_ff =
     [0, 0, 0, 10, 0, 0, 0, 1, 0, 0, 0, 2, 0xff, 0x0e, 0x04, 0x01, 0x03, 0x0c, 0x00, 0x07, 0x08, 0x09]"

text \<open>The same frame with the declared length 0xfffffffc.\<close>

definition frame_wrap :: "u8 list" where
  "frame_wrap =
     [0xff, 0xff, 0xff, 0xfc, 0, 0, 0, 1, 0, 0, 0, 2, 0x01, 0x0e, 0x04, 0x01, 0x03, 0x0c, 0x00, 0x07,
      0x08, 0x09]"

text \<open>A 14-byte frame that declares 100 bytes, and one that declares 65536.\<close>

definition frame_short :: "u8 list" where
  "frame_short = [0, 0, 0, 100, 0, 0, 0, 1, 0, 0, 0, 2, 0x01, 0x0e]"

definition frame_big :: "u8 list" where
  "frame_big = [0, 1, 0, 0, 0, 0, 0, 1, 0, 0, 0, 2, 0x01, 0x0e]"

text \<open>A sent ACL frame whose microseconds are 0, and a frame of an unlisted type.\<close>

definition frame_acl :: "u8 list" where
  "frame_acl = [0, 0, 0, 3, 0, 0, 0, 1, 0, 0, 0, 0, 0x02, 0x2a, 0x2b]"

definition frame_note :: "u8 list" where
  "frame_note = [0, 0, 0, 3, 0, 0, 0, 1, 0, 0, 0, 5, 0xfc, 0x41, 0x42]"

text \<open>The state while a capture to a pcap file is running.\<close>

definition capturing_pcap :: globals where
  "capturing_pcap =
     initial_globals\<lparr>udid := Some ''00008030-001C25E83E38802E'', device := Some 1,
       bt_packet_logger := Some 2, out_filename := Some ''out.pcap'',
       log_format_string := Some ''pcap'', pcap_dumper := Some 3,
       log_format := LOG_FORMAT_PCAP\<rparr>"

text \<open>The integer variables of the program: all that a counter could be.\<close>

definition int_globals :: "globals \<Rightarrow> int list" where
  "int_globals s = [quit_flag s, exit_on_disconnect s, use_network s, packetlogger_fd s]"

text \<open>
  Two devices, their events on the local bus and over the network, and a library that
  answers every call with success.
\<close>

definition phone :: string where
  "phone = ''00008030-001C25E83E38802E''"

definition tablet :: string where
  "tablet = ''00008101-000A11DE3C68001E''"

definition attach_phone :: idevice_event_t where
  "attach_phone = \<lparr>event = IDEVICE_DEVICE_ADD, ev_udid = phone, conn_type = CONNECTION_USBMUXD\<rparr>"

definition detach_phone :: idevice_event_t where
  "detach_phone = \<lparr>event = IDEVICE_DEVICE_REMOVE, ev_udid = phone, conn_type = CONNECTION_USBMUXD\<rparr>"

definition attach_tablet :: idevice_event_t where
  "attach_tablet = \<lparr>event = IDEVICE_DEVICE_ADD, ev_udid = tablet, conn_type = CONNECTION_USBMUXD\<rparr>"

definition detach_tablet :: idevice_event_t where
  "detach_tablet = \<lparr>event = IDEVICE_DEVICE_REMOVE, ev_udid = tablet, conn_type = CONNECTION_USBMUXD\<rparr>"

definition attach_phone_wifi :: idevice_event_t where
  "attach_phone_wifi = \<lparr>event = IDEVICE_DEVICE_ADD, ev_udid = phone, conn_type = CONNECTION_NETWORK\<rparr>"

definition library_ok :: start_env where
  "library_ok = \<lparr>new_device = Some 1, handshake_ok = True, new_service = Some 2, capture_ok = True\<rparr>"

text \<open>
  Three runs. A capture to a pcap file that a terminate signal ends; a capture to a
  PacketLogger file, started with \<^verbatim>\<open>-x\<close>, that the device's detach ends; and a run with
  \<^verbatim>\<open>-f pcap\<close> whose output file cannot be opened.
\<close>

definition run_signal :: main_env where
  "run_signal =
     \<lparr>opts = [Opt_f ''pcap''], positional = [''out.pcap''], num_devices = 1,
      pcap_dump_open_result = Some 3, open_result = - 1,
      batches = [[Device_event library_ok attach_phone, Frame frame_event 22],
                 [Signal SIGTERM]]\<rparr>"

definition run_policy :: main_env where
  "run_policy =
     \<lparr>opts = [Opt_x], positional = [''out.pklg''], num_devices = 1,
      pcap_dump_open_result = None, open_result = 4,
      batches = [[Device_event library_ok attach_phone],
                 [Frame frame_acl 15, Device_event library_ok detach_phone]]\<rparr>"

definition run_unwritable :: main_env where
  "run_unwritable =
     \<lparr>opts = [Opt_f ''pcap''], positional = [''/nonexistent/out.pcap''], num_devices = 1,
      pcap_dump_open_result = None, open_result = - 1,
      batches = [[Signal SIGINT]]\<rparr>"

section \<open>Properties of the pcap callback\<close>

lemma callback_pcap_accept:
  assumes "sizeof_header < length data"
    and "\<not> (len (pcap_header_of data data_len) > max_size
            \<or> caplen (pcap_header_of data data_len) > max_size)"
    and "fst (hci_h4_switch (data ! sizeof_header)) \<noteq> 0xff"
  shows "bt_packet_logger_callback_pcap max_size data data_len s =
     Inr (store_htonl (data[sizeof_header := fst (hci_h4_switch (data ! sizeof_header))])
            (sizeof_header - 4) (snd (hci_h4_switch (data ! sizeof_header))),
          emit [Pcap_dump (pcap_dumper s) (pcap_header_of data data_len)
                  (drop (sizeof_header - 4)
                     (store_htonl (data[sizeof_header := fst (hci_h4_switch (data ! sizeof_header))])
                        (sizeof_header - 4) (snd (hci_h4_switch (data ! sizeof_header))))),
                Pcap_dump_flush (pcap_dumper s)] s)"
  using assms
  by (simp add: bt_packet_logger_callback_pcap_def Let_def split_beta)

lemmas header_offsets = sizeof_header_def offsetof_length_def offsetof_ts_secs_def offsetof_ts_usecs_def

lemmas packet_types = HCI_EVENT_def HCI_COMMAND_def SENT_ACL_DATA_def RECV_ACL_DATA_def
  LIBPCAP_BT_PHDR_SENT_def LIBPCAP_BT_PHDR_RECV_def

text \<open>The value \<^verbatim>\<open>ntohl\<close> reads: the four bytes, most significant first.\<close>

lemma be32_sum:
  fixes a b c d :: u8
  shows "(push_bit 24 (ucast a) OR push_bit 16 (ucast b) OR push_bit 8 (ucast c) OR ucast d :: u32)
     = push_bit 24 (ucast a) + push_bit 16 (ucast b) + push_bit 8 (ucast c) + ucast d"
proof -
  have 1: "(push_bit 8 (ucast c) OR ucast d :: u32) = push_bit 8 (ucast c) + ucast d"
    by (rule disjunctive_add [symmetric]) (auto simp add: bit_simps dest: bit_imp_le_length)
  have 2: "(push_bit 16 (ucast b) OR (push_bit 8 (ucast c) OR ucast d) :: u32)
      = push_bit 16 (ucast b) + (push_bit 8 (ucast c) OR ucast d)"
    by (rule disjunctive_add [symmetric]) (auto simp add: bit_simps dest: bit_imp_le_length)
  have 3: "(push_bit 24 (ucast a) OR (push_bit 16 (ucast b) OR (push_bit 8 (ucast c) OR ucast d)) :: u32)
      = push_bit 24 (ucast a) + (push_bit 16 (ucast b) OR (push_bit 8 (ucast c) OR ucast d))"
    by (rule disjunctive_add [symmetric]) (auto simp add: bit_simps dest: bit_imp_le_length)
  have "(push_bit 24 (ucast a) OR push_bit 16 (ucast b) OR push_bit 8 (ucast c) OR ucast d :: u32)
      = push_bit 24 (ucast a) + (push_bit 16 (ucast b) OR (push_bit 8 (ucast c) OR ucast d))"
    by (rule 3)
  also have "\<dots> = push_bit 24 (ucast a) + (push_bit 16 (ucast b) + (push_bit 8 (ucast c) OR ucast d))"
    by (simp only: 2)
  also have "\<dots> = push_bit 24 (ucast a) + (push_bit 16 (ucast b) + (push_bit 8 (ucast c) + ucast d))"
    by (simp only: 1)
  finally show ?thesis by (simp only: add.assoc)
qed

lemma ntohl_at_value:
  "unat (ntohl_at data i) =
     unat (data ! i) * 2 ^ 24 + unat (data ! (i + 1)) * 2 ^ 16
       + unat (data ! (i + 2)) * 2 ^ 8 + unat (data ! (i + 3))"
proof -
  have b: "unat x < 256" for x :: u8
    using unsigned_less [of x, where 'a = nat] by simp
  have u: "unat (ucast x :: u32) = unat x" for x :: u8
    using b [of x] by (simp add: unsigned_ucast_eq take_bit_nat_eq_self)
  have p24: "unat (push_bit 24 (ucast x) :: u32) = unat x * 2 ^ 24" for x :: u8
    using b [of x] by (simp add: push_bit_eq_mult unat_word_ariths u)
  have p16: "unat (push_bit 16 (ucast x) :: u32) = unat x * 2 ^ 16" for x :: u8
    using b [of x] by (simp add: push_bit_eq_mult unat_word_ariths u)
  have p8: "unat (push_bit 8 (ucast x) :: u32) = unat x * 2 ^ 8" for x :: u8
    using b [of x] by (simp add: push_bit_eq_mult unat_word_ariths u)
  show ?thesis
    unfolding ntohl_at_def be32_sum
    using b [of "data ! i"] b [of "data ! (i + 1)"] b [of "data ! (i + 2)"] b [of "data ! (i + 3)"]
    by (simp add: unat_word_ariths p24 p16 p8 u)
qed

lemma store_htonl_split:
  assumes "12 < length data"
  shows "store_htonl (data[12 := u]) 8 v =
     take 8 data @ [ucast (drop_bit 24 v), ucast (drop_bit 16 v), ucast (drop_bit 8 v), ucast v, u] @ drop 13 data"
  using assms
  by (simp add: store_htonl_def list_eq_iff_nth_eq nth_append nth_list_update)

lemma hci_h4_switch_ff: "fst (hci_h4_switch t) = 0xff \<longleftrightarrow> t = 0xff"
  by (simp add: hci_h4_switch_def packet_types)

lemma callback_pcap_drop:
  assumes "sizeof_header \<le> length data"
    and "len (pcap_header_of data data_len) > max_size
            \<or> caplen (pcap_header_of data data_len) > max_size"
  shows "bt_packet_logger_callback_pcap max_size data data_len s =
     Inr (data, emit [Stderr length_warning] s)"
  using assms
  by (auto simp add: bt_packet_logger_callback_pcap_def Let_def)

lemma callback_pcap_skip:
  assumes "sizeof_header < length data"
    and "\<not> (len (pcap_header_of data data_len) > max_size
            \<or> caplen (pcap_header_of data data_len) > max_size)"
    and "data ! sizeof_header = 0xff"
  shows "bt_packet_logger_callback_pcap max_size data data_len s = Inr (data, s)"
  using assms
  by (simp add: bt_packet_logger_callback_pcap_def Let_def split_beta hci_h4_switch_ff)

lemma callback_pcap_emit:
  assumes "sizeof_header < length data"
    and "\<not> (len (pcap_header_of data data_len) > max_size
            \<or> caplen (pcap_header_of data data_len) > max_size)"
    and "data ! sizeof_header \<noteq> 0xff"
  shows "bt_packet_logger_callback_pcap max_size data data_len s =
     (let uart = fst (hci_h4_switch (data ! 12));
          dir = snd (hci_h4_switch (data ! 12));
          body = [ucast (drop_bit 24 dir), ucast (drop_bit 16 dir), ucast (drop_bit 8 dir), ucast dir, uart] @ drop 13 data
      in Inr (take 8 data @ body,
          emit [Pcap_dump (pcap_dumper s) (pcap_header_of data data_len) body,
                Pcap_dump_flush (pcap_dumper s)] s))"
proof -
  have n: "12 < length data" using assms(1) by (simp add: sizeof_header_def)
  have "fst (hci_h4_switch (data ! sizeof_header)) \<noteq> 0xff"
    using assms(3) by (simp add: hci_h4_switch_ff)
  from callback_pcap_accept [OF assms(1) assms(2) this, of s] show ?thesis
    using n by (simp add: sizeof_header_def store_htonl_split Let_def)
qed

lemmas callback_pcap_eval = bt_packet_logger_callback_pcap_def pcap_header_of_def ntohl_at_def
  header_offsets hci_h4_switch_def packet_types store_htonl_def emit_def

lemma within_max:
  assumes "ntohl_at data offsetof_length + 4 \<le> max_size"
    and "ucast data_len - of_nat sizeof_header + 4 \<le> max_size"
  shows "\<not> (len (pcap_header_of data data_len) > max_size
            \<or> caplen (pcap_header_of data data_len) > max_size)"
  using assms by (simp add: pcap_header_of_def sizeof_header_def not_less)

lemma beyond_max:
  assumes "max_size < ntohl_at data offsetof_length + 4
            \<or> max_size < ucast data_len - of_nat sizeof_header + 4"
  shows "len (pcap_header_of data data_len) > max_size
            \<or> caplen (pcap_header_of data data_len) > max_size"
  using assms by (auto simp add: pcap_header_of_def sizeof_header_def)

text \<open>
  Claim C1, as amended. For every frame whose type byte is not 0xff, with declared length
  \<open>L\<close> (big-endian, at byte 0) and byte count \<open>F\<close>: when \<open>L + 4\<close> and
  \<open>F - 12 + 4\<close>, both taken as 32-bit values, are at most the maximum, the callback
  hands libpcap one record whose header has \<open>caplen = L + 4\<close>, \<open>len = F - 12 + 4\<close>
  and the timestamp read big-endian from bytes 4 and 8 of the frame. The two lengths are
  sums modulo \<open>2 ^ 32\<close>, and \<open>L\<close> is the value of bytes 0 to 3, most significant first
  (as \<open>ntohl_at_value\<close> says of every field).
\<close>

theorem pcap_record_header:
  assumes "sizeof_header < length data"
    and "data ! sizeof_header \<noteq> 0xff"
    and "ntohl_at data offsetof_length + 4 \<le> max_size"
    and "ucast data_len - of_nat sizeof_header + 4 \<le> max_size"
  shows "(\<exists>data' body. bt_packet_logger_callback_pcap max_size data data_len s =
      Inr (data', emit [Pcap_dump (pcap_dumper s)
         \<lparr>tv_sec = ntohl_at data offsetof_ts_secs, tv_usec = ntohl_at data offsetof_ts_usecs,
          caplen = ntohl_at data offsetof_length + 4,
          len = ucast data_len - of_nat sizeof_header + 4\<rparr> body,
        Pcap_dump_flush (pcap_dumper s)] s))
    \<and> unat (ntohl_at data offsetof_length + 4) = (unat (ntohl_at data offsetof_length) + 4) mod 2 ^ 32
    \<and> uint (ucast data_len - of_nat sizeof_header + 4 :: u32)
        = (uint data_len - int sizeof_header + 4) mod 2 ^ 32
    \<and> unat (ntohl_at data offsetof_length) =
        unat (data ! 0) * 2 ^ 24 + unat (data ! 1) * 2 ^ 16 + unat (data ! 2) * 2 ^ 8
          + unat (data ! 3)"
proof -
  have w: "\<not> (len (pcap_header_of data data_len) > max_size
            \<or> caplen (pcap_header_of data data_len) > max_size)"
    using assms(3,4) by (rule within_max)
  have "\<exists>data' body. bt_packet_logger_callback_pcap max_size data data_len s =
      Inr (data', emit [Pcap_dump (pcap_dumper s) (pcap_header_of data data_len) body,
        Pcap_dump_flush (pcap_dumper s)] s)"
    using callback_pcap_emit [OF assms(1) w assms(2), of s] unfolding Let_def by blast
  then have e: "\<exists>data' body. bt_packet_logger_callback_pcap max_size data data_len s =
      Inr (data', emit [Pcap_dump (pcap_dumper s)
         \<lparr>tv_sec = ntohl_at data offsetof_ts_secs, tv_usec = ntohl_at data offsetof_ts_usecs,
          caplen = ntohl_at data offsetof_length + 4,
          len = ucast data_len - of_nat sizeof_header + 4\<rparr> body,
        Pcap_dump_flush (pcap_dumper s)] s)"
    by (simp add: pcap_header_of_def sizeof_header_def)
  have c: "unat (ntohl_at data offsetof_length + 4) = (unat (ntohl_at data offsetof_length) + 4) mod 2 ^ 32"
    by (simp add: unat_word_ariths)
  have l: "uint (ucast data_len - of_nat sizeof_header + 4 :: u32)
        = (uint data_len - int sizeof_header + 4) mod 2 ^ 32"
    by (simp add: sizeof_header_def uint_word_ariths uint_up_ucast is_up mod_simps)
  have v: "unat (ntohl_at data offsetof_length) =
        unat (data ! 0) * 2 ^ 24 + unat (data ! 1) * 2 ^ 16 + unat (data ! 2) * 2 ^ 8
          + unat (data ! 3)"
    using ntohl_at_value [of data 0] by (simp add: offsetof_length_def numeral_2_eq_2)
  from e c l v show ?thesis by blast
qed

text \<open>The event frame of 22 bytes: \<open>caplen = 14\<close>, \<open>len = 14\<close>, timestamp 1 s and 2 us.\<close>

theorem pcap_record_header_witness:
  "(\<exists>data' body. bt_packet_logger_callback_pcap 65535 frame_event 22 capturing_pcap =
      Inr (data', emit [Pcap_dump (Some 3) \<lparr>tv_sec = 1, tv_usec = 2, caplen = 14, len = 14\<rparr> body,
        Pcap_dump_flush (Some 3)] capturing_pcap))"
  using pcap_record_header [of frame_event 65535 22 capturing_pcap, THEN conjunct1]
  by (simp add: frame_event_def header_offsets ntohl_at_def capturing_pcap_def)

text \<open>
  Claim C1 as it was stated fails at two frames whose lengths pass the check: with the type
  byte 0xff nothing is handed to libpcap, and with the declared length 0xfffffffc the
  record has \<open>caplen = 0\<close>, which is \<open>L + 4\<close> only modulo \<open>2 ^ 32\<close>.
\<close>

theorem pcap_record_header_counterexample:
  "ntohl_at frame_ff offsetof_length + 4 \<le> (65535 :: u32)
   \<and> ucast (22 :: u16) - of_nat sizeof_header + 4 \<le> (65535 :: u32)
   \<and> bt_packet_logger_callback_pcap 65535 frame_ff 22 capturing_pcap = Inr (frame_ff, capturing_pcap)
   \<and> unat (ntohl_at frame_wrap offsetof_length) + 4 = 4294967296
   \<and> bt_packet_logger_callback_pcap 65535 frame_wrap 22 capturing_pcap =
       Inr (take 8 frame_wrap @ [0, 0, 0, 1, 4] @ drop 13 frame_wrap,
            emit [Pcap_dump (Some 3) \<lparr>tv_sec = 1, tv_usec = 2, caplen = 0, len = 14\<rparr>
                    ([0, 0, 0, 1, 4] @ drop 13 frame_wrap),
                  Pcap_dump_flush (Some 3)] capturing_pcap)"
  by (simp add: callback_pcap_eval frame_ff_def frame_wrap_def capturing_pcap_def)

text \<open>
  Claim C2, as amended. For every accepted frame (13 bytes or more, both lengths within the
  maximum) the type byte is mapped by the table 0x01 (event) to (0x04, received), 0x00
  (command) to (0x01, sent), 0x02 (sent ACL) to (0x02, sent), 0x03 (received ACL) to
  (0x02, received), and any other type byte but 0xff to itself, received. The record
  handed to libpcap has the four direction bytes (0 0 0 0 sent, 0 0 0 1 received), the
  UART type and the bytes that followed the type byte. For the type byte 0xff nothing is
  handed to libpcap and nothing changes.
\<close>

theorem type_byte_mapping:
  assumes "sizeof_header < length data"
    and "ntohl_at data offsetof_length + 4 \<le> max_size"
    and "ucast data_len - of_nat sizeof_header + 4 \<le> max_size"
  shows "bt_packet_logger_callback_pcap max_size data data_len s =
     (let t = data ! sizeof_header;
          (uart, direction) =
            (if t = 0x01 then (0x04, [0, 0, 0, 1])
             else if t = 0x00 then (0x01, [0, 0, 0, 0])
             else if t = 0x02 then (0x02, [0, 0, 0, 0])
             else if t = 0x03 then (0x02, [0, 0, 0, 1])
             else (t, [0, 0, 0, 1]));
          body = direction @ [uart] @ drop (sizeof_header + 1) data
      in if t = 0xff then Inr (data, s)
         else Inr (take 8 data @ body,
                emit [Pcap_dump (pcap_dumper s) (pcap_header_of data data_len) body,
                      Pcap_dump_flush (pcap_dumper s)] s))"
proof -
  have w: "\<not> (len (pcap_header_of data data_len) > max_size
            \<or> caplen (pcap_header_of data data_len) > max_size)"
    using assms(2,3) by (rule within_max)
  show ?thesis
  proof (cases "data ! sizeof_header = 0xff")
    case True
    then show ?thesis
      using callback_pcap_skip [OF assms(1) w True, of s] by (simp add: Let_def)
  next
    case False
    then show ?thesis
      using callback_pcap_emit [OF assms(1) w False, of s]
      by (simp add: Let_def sizeof_header_def hci_h4_switch_def packet_types)
  qed
qed

text \<open>A frame of the unlisted type 0xfc passes through; a sent ACL frame is marked sent.\<close>

theorem type_byte_mapping_witness:
  "bt_packet_logger_callback_pcap 65535 frame_note 15 capturing_pcap =
     Inr ([0, 0, 0, 3, 0, 0, 0, 1, 0, 0, 0, 1, 0xfc, 0x41, 0x42],
          emit [Pcap_dump (Some 3) \<lparr>tv_sec = 1, tv_usec = 5, caplen = 7, len = 7\<rparr>
                  [0, 0, 0, 1, 0xfc, 0x41, 0x42],
                Pcap_dump_flush (Some 3)] capturing_pcap)
   \<and> bt_packet_logger_callback_pcap 65535 frame_acl 15 capturing_pcap =
     Inr ([0, 0, 0, 3, 0, 0, 0, 1, 0, 0, 0, 0, 0x02, 0x2a, 0x2b],
          emit [Pcap_dump (Some 3) \<lparr>tv_sec = 1, tv_usec = 0, caplen = 7, len = 7\<rparr>
                  [0, 0, 0, 0, 0x02, 0x2a, 0x2b],
                Pcap_dump_flush (Some 3)] capturing_pcap)"
  using type_byte_mapping [of frame_note 65535 15 capturing_pcap]
    type_byte_mapping [of frame_acl 65535 15 capturing_pcap]
  by (simp add: frame_note_def frame_acl_def header_offsets ntohl_at_def capturing_pcap_def
      pcap_header_of_def Let_def)

text \<open>
  Claim C2 as it was stated fails at the type byte 0xff: the frame is accepted, and no
  record reaches libpcap.
\<close>

theorem type_byte_mapping_counterexample:
  "frame_ff ! sizeof_header = 0xff
   \<and> \<not> (len (pcap_header_of frame_ff 22) > 65535 \<or> caplen (pcap_header_of frame_ff 22) > 65535)
   \<and> bt_packet_logger_callback_pcap 65535 frame_ff 22 (capturing_pcap\<lparr>trace := []\<rparr>)
       = Inr (frame_ff, capturing_pcap\<lparr>trace := []\<rparr>)
   \<and> trace (capturing_pcap\<lparr>trace := []\<rparr>) = []"
  by (simp add: callback_pcap_eval frame_ff_def capturing_pcap_def)

text \<open>
  Claim C3, as amended. For every frame whose \<open>caplen\<close> or \<open>len\<close> exceeds the
  maximum, the callback returns with the buffer as it was and a state that differs from
  the one before only by the warning written to the standard error stream: nothing goes
  to the sink, no integer variable of the program changes (there is no drop counter), and
  the frames that follow are processed from that state.
\<close>

theorem oversized_frame_dropped:
  assumes "sizeof_header \<le> length data"
    and "max_size < ntohl_at data offsetof_length + 4
          \<or> max_size < ucast data_len - of_nat sizeof_header + 4"
  shows "bt_packet_logger_callback_pcap max_size data data_len s =
           Inr (data, s\<lparr>trace := trace s @ [Stderr length_warning]\<rparr>)
     \<and> (bt_packet_logger s \<noteq> None \<and> log_format s = LOG_FORMAT_PCAP \<longrightarrow>
          run_batch max_size (Frame data data_len # hs) s
            = run_batch max_size hs (s\<lparr>trace := trace s @ [Stderr length_warning]\<rparr>))
     \<and> int_globals (s\<lparr>trace := trace s @ [Stderr length_warning]\<rparr>) = int_globals s"
proof -
  have d: "bt_packet_logger_callback_pcap max_size data data_len s =
           Inr (data, s\<lparr>trace := trace s @ [Stderr length_warning]\<rparr>)"
    using callback_pcap_drop [OF assms(1) beyond_max [OF assms(2)], of s]
    by (simp add: emit_def)
  then have "bt_packet_logger s \<noteq> None \<and> log_format s = LOG_FORMAT_PCAP \<longrightarrow>
          run_batch max_size (Frame data data_len # hs) s
            = run_batch max_size hs (s\<lparr>trace := trace s @ [Stderr length_warning]\<rparr>)"
    by (auto simp add: deliver_def deliver_frame_def)
  with d show ?thesis by (simp add: int_globals_def)
qed

text \<open>A frame that declares 65536 bytes is dropped; the event frame after it is written.\<close>

theorem oversized_frame_dropped_witness:
  "bt_packet_logger_callback_pcap 65535 frame_big 14 capturing_pcap =
           Inr (frame_big, capturing_pcap\<lparr>trace := [Stderr length_warning]\<rparr>)
   \<and> run_batch 65535 [Frame frame_big 14, Frame frame_event 22] capturing_pcap
       = Inr (capturing_pcap\<lparr>trace := [Stderr length_warning,
            Pcap_dump (Some 3) \<lparr>tv_sec = 1, tv_usec = 2, caplen = 14, len = 14\<rparr>
              [0, 0, 0, 1, 0x04, 0x0e, 0x04, 0x01, 0x03, 0x0c, 0x00, 0x07, 0x08, 0x09],
            Pcap_dump_flush (Some 3)]\<rparr>)"
proof -
  have a: "sizeof_header \<le> length frame_big"
    by (simp add: frame_big_def sizeof_header_def)
  have b: "65535 < ntohl_at frame_big offsetof_length + 4
          \<or> (65535 :: u32) < ucast (14 :: u16) - of_nat sizeof_header + 4"
    by (simp add: frame_big_def ntohl_at_def header_offsets)
  have c: "trace capturing_pcap = []" "bt_packet_logger capturing_pcap \<noteq> None"
    "log_format capturing_pcap = LOG_FORMAT_PCAP"
    by (simp_all add: capturing_pcap_def initial_globals_def)
  have e: "run_batch 65535 [Frame frame_event 22] (capturing_pcap\<lparr>trace := [Stderr length_warning]\<rparr>)
     = Inr (capturing_pcap\<lparr>trace := [Stderr length_warning,
            Pcap_dump (Some 3) \<lparr>tv_sec = 1, tv_usec = 2, caplen = 14, len = 14\<rparr>
              [0, 0, 0, 1, 0x04, 0x0e, 0x04, 0x01, 0x03, 0x0c, 0x00, 0x07, 0x08, 0x09],
            Pcap_dump_flush (Some 3)]\<rparr>)"
    by (simp add: deliver_def deliver_frame_def callback_pcap_eval frame_event_def
        capturing_pcap_def initial_globals_def)
  show ?thesis
    using oversized_frame_dropped [OF a b, of capturing_pcap "[Frame frame_event 22]"] c e
    by simp
qed

text \<open>
  Claim C3 as it was stated fails: after a dropped frame every integer variable of the
  program has the value it had, so nothing has counted the drop.
\<close>

theorem oversized_frame_dropped_counterexample:
  "max (len (pcap_header_of frame_big 14)) (caplen (pcap_header_of frame_big 14)) > 65535
   \<and> map_sum id (int_globals \<circ> snd) (bt_packet_logger_callback_pcap 65535 frame_big 14 capturing_pcap)
       = Inr (int_globals capturing_pcap)
   \<and> map_sum id (trace \<circ> snd) (bt_packet_logger_callback_pcap 65535 frame_big 14 capturing_pcap)
       = Inr (trace capturing_pcap @ [Stderr length_warning])"
  by (simp add: callback_pcap_eval frame_big_def capturing_pcap_def initial_globals_def
      int_globals_def)

lemma hci_h4_switch_direction:
  "snd (hci_h4_switch t) = 0 \<or> snd (hci_h4_switch t) = 1"
  by (simp add: hci_h4_switch_def packet_types)

lemma drop_take_header:
  assumes "sizeof_header < length data"
  shows "drop 8 (take 8 data @ xs) = xs"
    and "length (take 8 data @ [a, b, c, d, e] @ drop 13 data) = length data"
    and "take 8 (take 8 data @ xs) = take 8 data"
    and "drop 13 (take 8 data @ [a, b, c, d, e] @ ys) = ys"
  using assms by (simp_all add: sizeof_header_def min_def)

lemma callback_pcap_cases:
  assumes "bt_packet_logger_callback_pcap max_size data data_len s = Inr (data', s')"
  shows "sizeof_header \<le> length data
    \<and> (if max_size < len (pcap_header_of data data_len)
            \<or> max_size < caplen (pcap_header_of data data_len)
        then data' = data \<and> s' = emit [Stderr length_warning] s
        else sizeof_header < length data \<and>
          (if data ! sizeof_header = 0xff then data' = data \<and> s' = s
           else data' = take 8 data @
                  [0, 0, 0, ucast (snd (hci_h4_switch (data ! sizeof_header))),
                   fst (hci_h4_switch (data ! sizeof_header))] @ drop 13 data
             \<and> s' = emit [Pcap_dump (pcap_dumper s) (pcap_header_of data data_len) (drop 8 data'),
                          Pcap_dump_flush (pcap_dumper s)] s))"
proof -
  have h: "sizeof_header \<le> length data"
    using assms by (auto simp add: bt_packet_logger_callback_pcap_def split: if_splits)
  show ?thesis
  proof (cases "max_size < len (pcap_header_of data data_len)
            \<or> max_size < caplen (pcap_header_of data data_len)")
    case True
    then show ?thesis
      using assms h callback_pcap_drop [OF h True, of s] by simp
  next
    case False
    then have n: "sizeof_header < length data"
      using assms h by (auto simp add: bt_packet_logger_callback_pcap_def Let_def split: if_splits)
    show ?thesis
    proof (cases "data ! sizeof_header = 0xff")
      case True
      then show ?thesis
        using assms h n False callback_pcap_skip [OF n False True, of s] by simp
    next
      case nf: False
      have "drop_bit 24 (snd (hci_h4_switch t)) = 0 \<and> drop_bit 16 (snd (hci_h4_switch t)) = 0
          \<and> drop_bit 8 (snd (hci_h4_switch t)) = 0" for t
        using hci_h4_switch_direction [of t] by auto
      then show ?thesis
        using assms h n False nf callback_pcap_emit [OF n False nf, of s]
          drop_take_header(1) [OF n]
        by (clarsimp simp add: Let_def sizeof_header_def)
    qed
  qed
qed

text \<open>
  Claim C8, as amended. The callback is a function of the maximum, the buffer, the byte
  count and the state, and it reads the state only for the dumper. It leaves every
  variable of the program as it was; what it does is seen in the buffer and in the calls
  it makes. A frame that is dropped, or whose type byte is 0xff, leaves the buffer as it
  was. For any other frame it overwrites bytes 8 to 11 with the direction and byte 12 with
  the UART type, leaves every other byte alone, and dumps and flushes one record.
\<close>

theorem callback_pcap_effects:
  assumes "bt_packet_logger_callback_pcap max_size data data_len s = Inr (data', s')"
  shows "s'\<lparr>trace := trace s\<rparr> = s
    \<and> length data' = length data
    \<and> take 8 data' = take 8 data
    \<and> drop 13 data' = drop 13 data
    \<and> (if max_size < len (pcap_header_of data data_len)
            \<or> max_size < caplen (pcap_header_of data data_len)
        then data' = data \<and> trace s' = trace s @ [Stderr length_warning]
        else if data ! sizeof_header = 0xff then data' = data \<and> trace s' = trace s
        else data' = take 8 data @
                  [0, 0, 0, ucast (snd (hci_h4_switch (data ! sizeof_header))),
                   fst (hci_h4_switch (data ! sizeof_header))] @ drop 13 data
           \<and> trace s' = trace s @
                [Pcap_dump (pcap_dumper s) (pcap_header_of data data_len) (drop 8 data'),
                 Pcap_dump_flush (pcap_dumper s)])
    \<and> (\<forall>s2. pcap_dumper s2 = pcap_dumper s \<longrightarrow>
          (\<exists>s2'. bt_packet_logger_callback_pcap max_size data data_len s2 = Inr (data', s2')
             \<and> drop (length (trace s2)) (trace s2') = drop (length (trace s)) (trace s')))"
proof -
  note c = callback_pcap_cases [OF assms]
  have h: "sizeof_header \<le> length data" using c by simp
  show ?thesis
  proof (cases "max_size < len (pcap_header_of data data_len)
            \<or> max_size < caplen (pcap_header_of data data_len)")
    case True
    have "bt_packet_logger_callback_pcap max_size data data_len s2 =
        Inr (data, emit [Stderr length_warning] s2)" for s2
      by (rule callback_pcap_drop [OF h True])
    then show ?thesis using c True by (simp add: emit_def)
  next
    case False
    then have n: "sizeof_header < length data" using c by simp
    show ?thesis
    proof (cases "data ! sizeof_header = 0xff")
      case True
      have "bt_packet_logger_callback_pcap max_size data data_len s2 = Inr (data, s2)" for s2
        by (rule callback_pcap_skip [OF n False True])
      then show ?thesis using c False True by simp
    next
      case nf: False
      have e: "\<exists>s2'. bt_packet_logger_callback_pcap max_size data data_len s2 = Inr (data', s2')
             \<and> drop (length (trace s2)) (trace s2') = drop (length (trace s)) (trace s')"
        if "pcap_dumper s2 = pcap_dumper s" for s2
      proof -
        obtain d2 t2 where r: "bt_packet_logger_callback_pcap max_size data data_len s2 = Inr (d2, t2)"
          using callback_pcap_emit [OF n False nf, of s2] by (simp add: Let_def)
        from callback_pcap_cases [OF r] c False nf that
        show ?thesis using r by (simp add: emit_def)
      qed
      from c False nf e drop_take_header [OF n] show ?thesis
        by (simp add: emit_def)
    qed
  qed
qed

text \<open>The event frame: bytes 8 to 12 become 0 0 0 1 4.\<close>

theorem callback_pcap_effects_witness:
  "take 8 [0, 0, 0, 10, 0, 0, 0, 1, 0, 0, 0, 1, 0x04, 0x0e, 0x04, 0x01, 0x03, 0x0c, 0x00, 0x07, 0x08, 0x09 :: u8]
      = take 8 frame_event
   \<and> drop 13 [0, 0, 0, 10, 0, 0, 0, 1, 0, 0, 0, 1, 0x04, 0x0e, 0x04, 0x01, 0x03, 0x0c, 0x00, 0x07, 0x08, 0x09 :: u8]
      = drop 13 frame_event
   \<and> bt_packet_logger_callback_pcap 65535 frame_event 22 capturing_pcap =
     Inr ([0, 0, 0, 10, 0, 0, 0, 1, 0, 0, 0, 1, 0x04, 0x0e, 0x04, 0x01, 0x03, 0x0c, 0x00, 0x07, 0x08, 0x09],
          capturing_pcap\<lparr>trace :=
            [Pcap_dump (Some 3) \<lparr>tv_sec = 1, tv_usec = 2, caplen = 14, len = 14\<rparr>
               [0, 0, 0, 1, 0x04, 0x0e, 0x04, 0x01, 0x03, 0x0c, 0x00, 0x07, 0x08, 0x09],
             Pcap_dump_flush (Some 3)]\<rparr>)"
proof -
  have r: "bt_packet_logger_callback_pcap 65535 frame_event 22 capturing_pcap =
     Inr ([0, 0, 0, 10, 0, 0, 0, 1, 0, 0, 0, 1, 0x04, 0x0e, 0x04, 0x01, 0x03, 0x0c, 0x00, 0x07, 0x08, 0x09],
          capturing_pcap\<lparr>trace :=
            [Pcap_dump (Some 3) \<lparr>tv_sec = 1, tv_usec = 2, caplen = 14, len = 14\<rparr>
               [0, 0, 0, 1, 0x04, 0x0e, 0x04, 0x01, 0x03, 0x0c, 0x00, 0x07, 0x08, 0x09],
             Pcap_dump_flush (Some 3)]\<rparr>)"
    by (simp add: callback_pcap_eval frame_event_def capturing_pcap_def initial_globals_def)
  from callback_pcap_effects [OF r] r show ?thesis by simp
qed

text \<open>
  Claim C8 as it was stated fails at the event frame: the buffer after the call differs
  from the frame, and two calls to libpcap were made.
\<close>

theorem callback_pcap_effects_counterexample:
  "map_sum id fst (bt_packet_logger_callback_pcap 65535 frame_event 22 capturing_pcap)
     = Inr [0, 0, 0, 10, 0, 0, 0, 1, 0, 0, 0, 1, 0x04, 0x0e, 0x04, 0x01, 0x03, 0x0c, 0x00, 0x07, 0x08, 0x09]
   \<and> [0, 0, 0, 10, 0, 0, 0, 1, 0, 0, 0, 1, 0x04, 0x0e, 0x04, 0x01, 0x03, 0x0c, 0x00, 0x07, 0x08, 0x09]
       \<noteq> frame_event
   \<and> map_sum id (trace \<circ> snd) (bt_packet_logger_callback_pcap 65535 frame_event 22 capturing_pcap)
       = Inr [Pcap_dump (Some 3) \<lparr>tv_sec = 1, tv_usec = 2, caplen = 14, len = 14\<rparr>
               [0, 0, 0, 1, 0x04, 0x0e, 0x04, 0x01, 0x03, 0x0c, 0x00, 0x07, 0x08, 0x09],
             Pcap_dump_flush (Some 3)]
   \<and> trace capturing_pcap = []"
  by (simp add: callback_pcap_eval frame_event_def capturing_pcap_def initial_globals_def)

text \<open>
  Claim C10, as amended. For every frame whose type byte is not 0xff and whose two lengths
  are within the maximum a record is dumped, whatever the declared length is next to the
  byte count: \<open>caplen\<close> comes from the header alone and \<open>len\<close> from the byte count
  alone. So \<open>caplen\<close> can exceed both \<open>len\<close> and the number of bytes the buffer holds
  from byte 8 on, as it does for the 14-byte frame that declares 100 bytes.
\<close>

theorem declared_length_unchecked:
  assumes "sizeof_header < length data"
    and "data ! sizeof_header \<noteq> 0xff"
    and "ntohl_at data offsetof_length + 4 \<le> max_size"
    and "ucast data_len - of_nat sizeof_header + 4 \<le> max_size"
  shows "(\<exists>data'. bt_packet_logger_callback_pcap max_size data data_len s =
            Inr (data', emit [Pcap_dump (pcap_dumper s) (pcap_header_of data data_len) (drop 8 data'),
                              Pcap_dump_flush (pcap_dumper s)] s)
          \<and> length (drop 8 data') = length data - 8)
     \<and> caplen (pcap_header_of data data_len) = ntohl_at data offsetof_length + 4
     \<and> len (pcap_header_of data data_len) = ucast data_len - of_nat sizeof_header + 4
     \<and> (\<exists>d n. sizeof_header < length d \<and> d ! sizeof_header \<noteq> 0xff \<and> unat n = length d
           \<and> caplen (pcap_header_of d n) \<le> 65535 \<and> len (pcap_header_of d n) \<le> 65535
           \<and> len (pcap_header_of d n) < caplen (pcap_header_of d n)
           \<and> length d - 8 < unat (caplen (pcap_header_of d n)))"
proof -
  have w: "\<not> (len (pcap_header_of data data_len) > max_size
            \<or> caplen (pcap_header_of data data_len) > max_size)"
    using assms(3,4) by (rule within_max)
  obtain d2 t2 where r: "bt_packet_logger_callback_pcap max_size data data_len s = Inr (d2, t2)"
    using callback_pcap_emit [OF assms(1) w assms(2), of s] by (simp add: Let_def)
  from callback_pcap_cases [OF r] w assms(2) drop_take_header [OF assms(1)]
  have a: "\<exists>data'. bt_packet_logger_callback_pcap max_size data data_len s =
            Inr (data', emit [Pcap_dump (pcap_dumper s) (pcap_header_of data data_len) (drop 8 data'),
                              Pcap_dump_flush (pcap_dumper s)] s)
          \<and> length (drop 8 data') = length data - 8"
    using r by simp
  have b: "sizeof_header < length frame_short \<and> frame_short ! sizeof_header \<noteq> 0xff
           \<and> unat (14 :: u16) = length frame_short
           \<and> caplen (pcap_header_of frame_short 14) \<le> 65535 \<and> len (pcap_header_of frame_short 14) \<le> 65535
           \<and> len (pcap_header_of frame_short 14) < caplen (pcap_header_of frame_short 14)
           \<and> length frame_short - 8 < unat (caplen (pcap_header_of frame_short 14))"
    by (simp add: frame_short_def pcap_header_of_def ntohl_at_def header_offsets)
  have c: "caplen (pcap_header_of data data_len) = ntohl_at data offsetof_length + 4
     \<and> len (pcap_header_of data data_len) = ucast data_len - of_nat sizeof_header + 4"
    by (simp add: pcap_header_of_def sizeof_header_def)
  from a b c show ?thesis by blast
qed

text \<open>The 14-byte frame that declares 100 bytes: \<open>caplen = 104\<close>, \<open>len = 6\<close>, six bytes.\<close>

theorem declared_length_unchecked_witness:
  "\<exists>data'. bt_packet_logger_callback_pcap 65535 frame_short 14 capturing_pcap =
      Inr (data', emit [Pcap_dump (Some 3) \<lparr>tv_sec = 1, tv_usec = 2, caplen = 104, len = 6\<rparr> (drop 8 data'),
                        Pcap_dump_flush (Some 3)] capturing_pcap)
      \<and> length (drop 8 data') = 6"
  using declared_length_unchecked [of frame_short 65535 14 capturing_pcap, THEN conjunct1]
  by (auto simp add: frame_short_def header_offsets ntohl_at_def capturing_pcap_def pcap_header_of_def)

text \<open>
  Claim C10 as it was stated fails at the same frame with the type byte 0xff: both lengths
  are within the maximum and no record is dumped.
\<close>

theorem declared_length_unchecked_counterexample:
  "caplen (pcap_header_of (frame_short[12 := 0xff]) 14) \<le> 65535
   \<and> len (pcap_header_of (frame_short[12 := 0xff]) 14) \<le> 65535
   \<and> bt_packet_logger_callback_pcap 65535 (frame_short[12 := 0xff]) 14 capturing_pcap
       = Inr (frame_short[12 := 0xff], capturing_pcap)"
  by (simp add: callback_pcap_eval frame_short_def capturing_pcap_def)

section \<open>Properties of the device events and the signal handler\<close>

lemma device_event_cb_filtered:
  assumes "\<not> transport_matches s ev"
  shows "device_event_cb env ev s = Inr s"
  using assms
  by (cases "conn_type ev") (auto simp add: device_event_cb_def transport_matches_def split: if_splits)

lemma start_logging_udid: "udid (snd (start_logging env s)) = udid s"
  by (simp add: start_logging_def emit_def Let_def split: option.splits)

lemma start_logging_config:
  "use_network (snd (start_logging env s)) = use_network s
   \<and> quit_flag (snd (start_logging env s)) = quit_flag s
   \<and> exit_on_disconnect (snd (start_logging env s)) = exit_on_disconnect s
   \<and> pcap_dumper (snd (start_logging env s)) = pcap_dumper s
   \<and> packetlogger_fd (snd (start_logging env s)) = packetlogger_fd s
   \<and> log_format (snd (start_logging env s)) = log_format s"
  by (simp add: start_logging_def emit_def Let_def split: option.splits)

lemma stop_logging_eq:
  "stop_logging s =
     s\<lparr>bt_packet_logger := None, device := None,
       trace := trace s @ [Fflush_all]
         @ (case bt_packet_logger s of Some h \<Rightarrow> [Client_free (Some h)] | None \<Rightarrow> [])
         @ (case device s of Some d \<Rightarrow> [Idevice_free d] | None \<Rightarrow> [])\<rparr>"
  by (simp add: stop_logging_def emit_def Let_def split: option.splits)

lemma device_event_cb_attach_unbound:
  assumes "transport_matches s ev" and "event ev = IDEVICE_DEVICE_ADD"
    and "udid s = None" and "bt_packet_logger s = None"
  shows "\<exists>s'. device_event_cb env ev s = Inr s' \<and> udid s' = Some (ev_udid ev)"
proof -
  have t: "\<not> (use_network s \<noteq> 0 \<and> conn_type ev \<noteq> CONNECTION_NETWORK)"
    "\<not> (\<not> use_network s \<noteq> 0 \<and> conn_type ev \<noteq> CONNECTION_USBMUXD)"
    using assms(1) by (auto simp add: transport_matches_def split: if_splits)
  have u: "udid (snd (start_logging env (s\<lparr>udid := Some (ev_udid ev)\<rparr>))) = Some (ev_udid ev)"
    by (simp add: start_logging_udid)
  show ?thesis
    using t assms(2-4) u
    by (cases "start_logging env (s\<lparr>udid := Some (ev_udid ev)\<rparr>)")
      (simp add: device_event_cb_def Let_def emit_def)
qed

lemma device_event_cb_other_udid:
  assumes "udid s = Some u" and "ev_udid ev \<noteq> u"
  shows "device_event_cb env ev s = Inr s"
  using assms by (auto simp add: device_event_cb_def Let_def)

lemma device_event_cb_udid:
  assumes "udid s = Some u" and "device_event_cb env ev s = Inr s'"
  shows "udid s' = Some u"
proof (cases "ev_udid ev = u")
  case False
  then show ?thesis using assms device_event_cb_other_udid [OF assms(1), of ev env] by simp
next
  case True
  have "udid (snd (start_logging env s)) = Some u"
    using assms(1) by (simp add: start_logging_udid)
  then show ?thesis
    using assms True
    by (cases "start_logging env s")
      (auto simp add: device_event_cb_def Let_def emit_def stop_logging_eq split: if_splits)
qed

lemma deliver_frame_globals:
  assumes "deliver_frame max_size data data_len s = Inr s'"
  shows "s'\<lparr>trace := trace s\<rparr> = s"
proof (cases "bt_packet_logger s = None")
  case True
  then show ?thesis using assms by (simp add: deliver_frame_def)
next
  case False
  show ?thesis
  proof (cases "log_format s")
    case LOG_FORMAT_PCAP
    then obtain d where "bt_packet_logger_callback_pcap max_size data data_len s = Inr (d, s')"
      using assms False
      by (cases "bt_packet_logger_callback_pcap max_size data data_len s")
        (auto simp add: deliver_frame_def)
    from callback_pcap_cases [OF this] show ?thesis
      by (auto simp add: emit_def split: if_splits)
  next
    case LOG_FORMAT_PACKETLOGGER
    then show ?thesis
      using assms False
      by (auto simp add: deliver_frame_def bt_packet_logger_callback_packetlogger_def emit_def
          split: if_splits)
  qed
qed

lemma deliver_udid:
  assumes "udid s = Some u" and "deliver max_size h s = Inr s'"
  shows "udid s' = Some u"
proof (cases h)
  case (Signal sg)
  then show ?thesis
    using assms by (cases sg) (auto simp add: deliver_def deliver_signal_def clean_exit_def emit_def)
next
  case (Device_event env ev)
  then show ?thesis using assms device_event_cb_udid [of s u env ev s'] by (simp add: deliver_def)
next
  case (Frame data data_len)
  then have "deliver_frame max_size data data_len s = Inr s'"
    using assms by (simp add: deliver_def)
  from deliver_frame_globals [OF this, THEN arg_cong, of udid] show ?thesis
    using assms(1) by simp
qed

lemma run_batch_udid:
  assumes "udid s = Some u" and "run_batch max_size hs s = Inr s'"
  shows "udid s' = Some u"
  using assms
proof (induction hs arbitrary: s)
  case Nil
  then show ?case by simp
next
  case (Cons h hs)
  then show ?case
    by (cases "deliver max_size h s") (auto dest: deliver_udid)
qed

lemma run_batch_append:
  "run_batch max_size (xs @ ys) s =
     (case run_batch max_size xs s of Inl f \<Rightarrow> Inl f | Inr s' \<Rightarrow> run_batch max_size ys s')"
  by (induction xs arbitrary: s) (auto split: sum.splits)

text \<open>Until the first matching attach event nothing but the flag and the trace moves.\<close>

lemma deliver_unbound:
  assumes "udid s = None" and "bt_packet_logger s = None" and "\<not> matching_attach s h"
  shows "\<exists>s'. deliver max_size h s = Inr s' \<and> udid s' = None \<and> bt_packet_logger s' = None
           \<and> use_network s' = use_network s"
proof (cases h)
  case (Signal sg)
  then show ?thesis
    using assms by (cases sg) (auto simp add: deliver_def deliver_signal_def clean_exit_def emit_def)
next
  case (Device_event env ev)
  show ?thesis
  proof (cases "transport_matches s ev")
    case False
    then show ?thesis
      using assms Device_event device_event_cb_filtered [OF False, of env]
      by (simp add: deliver_def)
  next
    case True
    then have "event ev \<noteq> IDEVICE_DEVICE_ADD"
      using assms(3) Device_event by (simp add: matching_attach_def)
    then show ?thesis
      using assms Device_event by (auto simp add: deliver_def device_event_cb_def)
  qed
next
  case (Frame data data_len)
  then show ?thesis using assms by (simp add: deliver_def deliver_frame_def)
qed

lemma run_batch_unbound:
  assumes "udid s = None" and "bt_packet_logger s = None"
    and "\<forall>h \<in> set hs. \<not> matching_attach s h"
  shows "\<exists>s'. run_batch max_size hs s = Inr s' \<and> udid s' = None \<and> bt_packet_logger s' = None
           \<and> use_network s' = use_network s"
  using assms
proof (induction hs arbitrary: s)
  case Nil
  then show ?case by simp
next
  case (Cons h hs)
  from deliver_unbound [OF Cons.prems(1,2), of h max_size] Cons.prems(3)
  obtain s1 where s1: "deliver max_size h s = Inr s1" "udid s1 = None"
    "bt_packet_logger s1 = None" "use_network s1 = use_network s"
    by auto
  have "\<forall>h \<in> set hs. \<not> matching_attach s1 h"
    using Cons.prems(3) s1(4)
    by (auto simp add: matching_attach_def transport_matches_def split: happening.splits)
  from Cons.IH [OF s1(2,3) this] s1 show ?case by auto
qed

text \<open>
  Claim C4. An event of the transport kind that is not configured changes nothing. An
  attach event of the configured kind that arrives while no UDID is bound binds its UDID.
  While a UDID is bound, an attach or detach event with another UDID changes nothing, and
  no signal, event or frame changes the bound UDID. So after any run the bound UDID is the
  one of the first attach event of the configured kind.
\<close>

theorem monitor_binds_first_attach:
  "(\<not> transport_matches s ev \<longrightarrow> device_event_cb env ev s = Inr s)
   \<and> (transport_matches s ev \<and> event ev = IDEVICE_DEVICE_ADD \<and> udid s = None
        \<and> bt_packet_logger s = None \<longrightarrow>
        (\<exists>s'. device_event_cb env ev s = Inr s' \<and> udid s' = Some (ev_udid ev)))
   \<and> (udid s = Some u \<and> ev_udid ev \<noteq> u \<longrightarrow> device_event_cb env ev s = Inr s)
   \<and> (udid s = Some u \<and> run_batch max_size hs s = Inr s' \<longrightarrow> udid s' = Some u)
   \<and> (udid s = None \<and> bt_packet_logger s = None \<and> (\<forall>h \<in> set pre. \<not> matching_attach s h)
        \<and> transport_matches s ev \<and> event ev = IDEVICE_DEVICE_ADD
        \<and> run_batch max_size (pre @ Device_event env ev # post) s = Inr s' \<longrightarrow>
        udid s' = Some (ev_udid ev))"
proof -
  have a: "\<not> transport_matches s ev \<longrightarrow> device_event_cb env ev s = Inr s"
    by (simp add: device_event_cb_filtered)
  have b: "transport_matches s ev \<and> event ev = IDEVICE_DEVICE_ADD \<and> udid s = None
        \<and> bt_packet_logger s = None \<longrightarrow>
        (\<exists>s'. device_event_cb env ev s = Inr s' \<and> udid s' = Some (ev_udid ev))"
    using device_event_cb_attach_unbound [of s ev env] by blast
  have c: "udid s = Some u \<and> ev_udid ev \<noteq> u \<longrightarrow> device_event_cb env ev s = Inr s"
    using device_event_cb_other_udid [of s u ev env] by blast
  have d: "udid s = Some u \<and> run_batch max_size hs s = Inr s' \<longrightarrow> udid s' = Some u"
    using run_batch_udid [of s u max_size hs s'] by blast
  have e: "udid s' = Some (ev_udid ev)"
    if h: "udid s = None" "bt_packet_logger s = None" "\<forall>h \<in> set pre. \<not> matching_attach s h"
      "transport_matches s ev" "event ev = IDEVICE_DEVICE_ADD"
      "run_batch max_size (pre @ Device_event env ev # post) s = Inr s'"
  proof -
    from run_batch_unbound [OF h(1,2,3), of max_size]
    obtain s1 where s1: "run_batch max_size pre s = Inr s1" "udid s1 = None"
      "bt_packet_logger s1 = None" "use_network s1 = use_network s"
      by auto
    have "transport_matches s1 ev"
      using h(4) s1(4) by (simp add: transport_matches_def)
    from device_event_cb_attach_unbound [OF this h(5) s1(2,3), of env]
    obtain s2 where s2: "device_event_cb env ev s1 = Inr s2" "udid s2 = Some (ev_udid ev)"
      by auto
    have "run_batch max_size post s2 = Inr s'"
      using h(6) s1(1) s2(1) by (simp add: run_batch_append deliver_def)
    from run_batch_udid [OF s2(2) this] show ?thesis .
  qed
  from a b c d e show ?thesis by blast
qed

lemmas event_eval = device_event_cb_def start_logging_def stop_logging_def emit_def Let_def
  udid_str_def deliver_def deliver_signal_def clean_exit_def deliver_frame_def
  attach_phone_def detach_phone_def attach_tablet_def detach_tablet_def attach_phone_wifi_def
  library_ok_def initial_globals_def transport_matches_def matching_attach_def

text \<open>
  The phone attaches over the network (ignored), the tablet detaches (ignored), the phone
  attaches on the local bus (bound); the tablet's and the phone's later events leave the
  phone bound.
\<close>

theorem monitor_binds_first_attach_witness:
  "device_event_cb library_ok attach_phone_wifi initial_globals = Inr initial_globals
   \<and> (\<exists>s'. device_event_cb library_ok attach_phone initial_globals = Inr s' \<and> udid s' = Some phone)
   \<and> device_event_cb library_ok detach_tablet capturing_pcap = Inr capturing_pcap
   \<and> (\<exists>s'. run_batch 65535
          ([Device_event library_ok attach_phone_wifi, Signal SIGPIPE, Device_event library_ok detach_tablet]
            @ Device_event library_ok attach_phone
            # [Device_event library_ok attach_tablet, Device_event library_ok detach_phone,
               Device_event library_ok attach_tablet]) initial_globals = Inr s'
        \<and> udid s' = Some phone)"
proof -
  have a: "device_event_cb library_ok attach_phone_wifi initial_globals = Inr initial_globals"
    using monitor_binds_first_attach [of initial_globals attach_phone_wifi library_ok]
    by (simp add: transport_matches_def attach_phone_wifi_def initial_globals_def)
  have b: "\<exists>s'. device_event_cb library_ok attach_phone initial_globals = Inr s' \<and> udid s' = Some phone"
    using monitor_binds_first_attach [of initial_globals attach_phone library_ok]
    by (simp add: transport_matches_def attach_phone_def initial_globals_def)
  have c: "device_event_cb library_ok detach_tablet capturing_pcap = Inr capturing_pcap"
    using monitor_binds_first_attach [of capturing_pcap detach_tablet library_ok phone]
    by (simp add: detach_tablet_def capturing_pcap_def phone_def tablet_def)
  obtain s' where r: "run_batch 65535
          ([Device_event library_ok attach_phone_wifi, Signal SIGPIPE, Device_event library_ok detach_tablet]
            @ Device_event library_ok attach_phone
            # [Device_event library_ok attach_tablet, Device_event library_ok detach_phone,
               Device_event library_ok attach_tablet]) initial_globals = Inr s'"
    by (simp add: event_eval phone_def tablet_def)
  have "udid s' = Some phone"
    using monitor_binds_first_attach [of initial_globals attach_phone library_ok _ 65535 _ s'
        "[Device_event library_ok attach_phone_wifi, Signal SIGPIPE, Device_event library_ok detach_tablet]"
        "[Device_event library_ok attach_tablet, Device_event library_ok detach_phone,
               Device_event library_ok attach_tablet]"] r
    by (simp add: transport_matches_def matching_attach_def attach_phone_def attach_phone_wifi_def
        detach_tablet_def initial_globals_def)
  with a b c r show ?thesis by blast
qed

lemma device_event_cb_detach:
  assumes "transport_matches s ev" and "event ev = IDEVICE_DEVICE_REMOVE"
    and "udid s = Some u" and "ev_udid ev = u" and "bt_packet_logger s = Some h"
  shows "device_event_cb env ev s =
     Inr (s\<lparr>bt_packet_logger := None, device := None,
            quit_flag := (if exit_on_disconnect s \<noteq> 0 then quit_flag s + 1 else quit_flag s),
            trace := trace s @ [Fflush_all, Client_free (Some h)]
              @ (case device s of Some d \<Rightarrow> [Idevice_free d] | None \<Rightarrow> [])
              @ [Stdout (''[disconnected:'' @ u @ '']'' @ nl)]\<rparr>)"
proof -
  have t: "\<not> (use_network s \<noteq> 0 \<and> conn_type ev \<noteq> CONNECTION_NETWORK)"
    "\<not> (\<not> use_network s \<noteq> 0 \<and> conn_type ev \<noteq> CONNECTION_USBMUXD)"
    using assms(1) by (auto simp add: transport_matches_def split: if_splits)
  show ?thesis
    using t assms(2-5)
    by (auto simp add: device_event_cb_def Let_def emit_def stop_logging_eq udid_str_def)
qed

lemma device_event_cb_attach_bound:
  assumes "transport_matches s ev" and "event ev = IDEVICE_DEVICE_ADD"
    and "udid s = Some u" and "ev_udid ev = u" and "bt_packet_logger s = None"
  shows "device_event_cb env ev s =
     (case start_logging env s of (rc, s2) \<Rightarrow>
        if rc \<noteq> 0
        then Inr (emit [Stderr (''Could not start logger for udid '' @ udid_str s2 @ nl)] s2)
        else Inr s2)"
proof -
  have t: "\<not> (use_network s \<noteq> 0 \<and> conn_type ev \<noteq> CONNECTION_NETWORK)"
    "\<not> (\<not> use_network s \<noteq> 0 \<and> conn_type ev \<noteq> CONNECTION_USBMUXD)"
    using assms(1) by (auto simp add: transport_matches_def split: if_splits)
  show ?thesis
    using t assms(2-5) by (auto simp add: device_event_cb_def Let_def)
qed

text \<open>
  Claim C5. A detach event of the configured transport kind whose UDID is the bound one,
  arriving while a capture runs and the flag is 0: the client and then the device are
  freed and both variables are null, \<^verbatim>\<open>[disconnected:UDID]\<close> is printed, nothing else
  changes but the flag, and the flag is non-zero afterwards exactly when
  \<^verbatim>\<open>exit_on_disconnect\<close> is set. The waiting loop then ends in the first case and goes on
  in the second, where a later attach event of the same device starts a capture again.
\<close>

theorem matching_detach_stops_session:
  assumes "transport_matches s ev" and "event ev = IDEVICE_DEVICE_REMOVE"
    and "udid s = Some u" and "ev_udid ev = u" and "bt_packet_logger s = Some h"
    and "quit_flag s = 0"
  shows "\<exists>s'. device_event_cb env ev s = Inr s'
     \<and> bt_packet_logger s' = None \<and> device s' = None
     \<and> trace s' = trace s @ [Fflush_all, Client_free (Some h)]
          @ (case device s of Some d \<Rightarrow> [Idevice_free d] | None \<Rightarrow> [])
          @ [Stdout (''[disconnected:'' @ u @ '']'' @ nl)]
     \<and> s'\<lparr>bt_packet_logger := bt_packet_logger s, device := device s,
           quit_flag := quit_flag s, trace := trace s\<rparr> = s
     \<and> ((quit_flag s' \<noteq> 0) = (exit_on_disconnect s \<noteq> 0))
     \<and> wait_loop max_size ([Device_event env ev] # bs) s =
         (if exit_on_disconnect s \<noteq> 0 then Inr s' else wait_loop max_size bs s')
     \<and> (\<forall>env2 ev2. transport_matches s ev2 \<and> event ev2 = IDEVICE_DEVICE_ADD \<and> ev_udid ev2 = u \<longrightarrow>
           device_event_cb env2 ev2 s' =
             (case start_logging env2 s' of (rc, s2) \<Rightarrow>
                if rc \<noteq> 0
                then Inr (emit [Stderr (''Could not start logger for udid '' @ udid_str s2 @ nl)] s2)
                else Inr s2))"
proof -
  define s' where "s' = s\<lparr>bt_packet_logger := None, device := None,
            quit_flag := (if exit_on_disconnect s \<noteq> 0 then quit_flag s + 1 else quit_flag s),
            trace := trace s @ [Fflush_all, Client_free (Some h)]
              @ (case device s of Some d \<Rightarrow> [Idevice_free d] | None \<Rightarrow> [])
              @ [Stdout (''[disconnected:'' @ u @ '']'' @ nl)]\<rparr>"
  have r: "device_event_cb env ev s = Inr s'"
    unfolding s'_def by (rule device_event_cb_detach [OF assms(1-5)])
  have f: "bt_packet_logger s' = None" "device s' = None" "udid s' = Some u"
    "trace s' = trace s @ [Fflush_all, Client_free (Some h)]
          @ (case device s of Some d \<Rightarrow> [Idevice_free d] | None \<Rightarrow> [])
          @ [Stdout (''[disconnected:'' @ u @ '']'' @ nl)]"
    "s'\<lparr>bt_packet_logger := bt_packet_logger s, device := device s,
           quit_flag := quit_flag s, trace := trace s\<rparr> = s"
    "use_network s' = use_network s"
    using assms(3) by (simp_all add: s'_def)
  have q: "(quit_flag s' \<noteq> 0) = (exit_on_disconnect s \<noteq> 0)"
    using assms(6) by (simp add: s'_def)
  have w: "wait_loop max_size ([Device_event env ev] # bs) s =
         (if exit_on_disconnect s \<noteq> 0 then Inr s' else wait_loop max_size bs s')"
    using assms(6) r q by (cases bs) (simp_all add: deliver_def)
  have n: "device_event_cb env2 ev2 s' =
             (case start_logging env2 s' of (rc, s2) \<Rightarrow>
                if rc \<noteq> 0
                then Inr (emit [Stderr (''Could not start logger for udid '' @ udid_str s2 @ nl)] s2)
                else Inr s2)"
    if "transport_matches s ev2" "event ev2 = IDEVICE_DEVICE_ADD" "ev_udid ev2 = u" for env2 ev2
  proof -
    have "transport_matches s' ev2"
      using that(1) f(6) by (simp add: transport_matches_def)
    from device_event_cb_attach_bound [OF this that(2) f(3) that(3) f(1)] show ?thesis .
  qed
  from r f q w n show ?thesis by blast
qed

text \<open>The phone detaches during a capture, without and with \<^verbatim>\<open>-x\<close>.\<close>

theorem matching_detach_stops_session_witness:
  "(\<exists>s'. device_event_cb library_ok detach_phone capturing_pcap = Inr s'
       \<and> bt_packet_logger s' = None \<and> device s' = None
       \<and> trace s' = [Fflush_all, Client_free (Some 2), Idevice_free 1,
                      Stdout (''[disconnected:'' @ phone @ '']'' @ nl)]
       \<and> quit_flag s' = 0
       \<and> wait_loop 65535 [[Device_event library_ok detach_phone]] capturing_pcap = Inl (Waiting s'))
   \<and> (\<exists>s'. device_event_cb library_ok detach_phone (capturing_pcap\<lparr>exit_on_disconnect := 1\<rparr>) = Inr s'
       \<and> bt_packet_logger s' = None \<and> device s' = None
       \<and> quit_flag s' \<noteq> 0
       \<and> wait_loop 65535 [[Device_event library_ok detach_phone]]
            (capturing_pcap\<lparr>exit_on_disconnect := 1\<rparr>) = Inr s')"
proof -
  have a: "\<exists>s'. device_event_cb library_ok detach_phone capturing_pcap = Inr s'
       \<and> bt_packet_logger s' = None \<and> device s' = None
       \<and> trace s' = [Fflush_all, Client_free (Some 2), Idevice_free 1,
                      Stdout (''[disconnected:'' @ phone @ '']'' @ nl)]
       \<and> quit_flag s' = 0
       \<and> wait_loop 65535 [[Device_event library_ok detach_phone]] capturing_pcap = Inl (Waiting s')"
    using matching_detach_stops_session [of capturing_pcap detach_phone phone 2 library_ok 65535 "[]"]
    by (auto simp add: transport_matches_def detach_phone_def capturing_pcap_def
        initial_globals_def phone_def)
  have b: "\<exists>s'. device_event_cb library_ok detach_phone (capturing_pcap\<lparr>exit_on_disconnect := 1\<rparr>) = Inr s'
       \<and> bt_packet_logger s' = None \<and> device s' = None
       \<and> quit_flag s' \<noteq> 0
       \<and> wait_loop 65535 [[Device_event library_ok detach_phone]]
            (capturing_pcap\<lparr>exit_on_disconnect := 1\<rparr>) = Inr s'"
    using matching_detach_stops_session [of "capturing_pcap\<lparr>exit_on_disconnect := 1\<rparr>"
        detach_phone phone 2 library_ok 65535 "[]"]
    by (auto simp add: transport_matches_def detach_phone_def capturing_pcap_def
        initial_globals_def phone_def)
  from a b show ?thesis by blast
qed

text \<open>
  Claim C9, as amended. The handler installed for the interrupt, terminate and quit
  signals writes a line to the standard error stream and adds 1 to the flag; every other
  variable of the program is left as it was. The broken-pipe signal is ignored.
\<close>

theorem clean_exit_effects:
  "clean_exit sig s =
     s\<lparr>quit_flag := quit_flag s + 1, trace := trace s @ [Stderr (nl @ ''Exiting...'' @ nl)]\<rparr>
   \<and> deliver_signal SIGINT s = clean_exit (signum SIGINT) s
   \<and> deliver_signal SIGTERM s = clean_exit (signum SIGTERM) s
   \<and> deliver_signal SIGQUIT s = clean_exit (signum SIGQUIT) s
   \<and> deliver_signal SIGPIPE s = s"
  by (simp add: clean_exit_def deliver_signal_def emit_def)

text \<open>A terminate signal during a capture.\<close>

theorem clean_exit_effects_witness:
  "deliver_signal SIGTERM capturing_pcap =
     capturing_pcap\<lparr>quit_flag := 1, trace := [Stderr (nl @ ''Exiting...'' @ nl)]\<rparr>"
  using clean_exit_effects [of "signum SIGTERM" capturing_pcap]
  by (simp add: capturing_pcap_def initial_globals_def)

text \<open>
  Claim C9 as it was stated fails: the handler writes to the standard error stream.
\<close>

theorem clean_exit_effects_counterexample:
  "trace (clean_exit 2 initial_globals) = [Stderr (nl @ ''Exiting...'' @ nl)]
   \<and> trace initial_globals = []"
  by (simp add: clean_exit_def emit_def initial_globals_def)

section \<open>Properties of the program\<close>

lemma start_logging_teardown:
  "filter is_teardown (trace (snd (start_logging env s))) = filter is_teardown (trace s)"
  by (simp add: start_logging_def emit_def Let_def is_teardown_def is_sink_close_def
      split: option.splits)

lemma stop_logging_teardown:
  "filter is_teardown (trace (stop_logging s)) = filter is_teardown (trace s)"
  by (simp add: stop_logging_eq is_teardown_def is_sink_close_def split: option.splits)

lemma stop_logging_sink:
  "pcap_dumper (stop_logging s) = pcap_dumper s
   \<and> packetlogger_fd (stop_logging s) = packetlogger_fd s
   \<and> log_format (stop_logging s) = log_format s"
  by (simp add: stop_logging_eq)

lemma device_event_cb_sink:
  assumes "device_event_cb env ev s = Inr s'"
  shows "sink_view s' = sink_view s"
proof -
  have a: "sink_view (snd (start_logging env x)) = sink_view x" for x
    by (simp add: sink_view_def start_logging_teardown start_logging_config)
  have b: "sink_view (stop_logging x) = sink_view x" for x
    by (simp add: sink_view_def stop_logging_teardown stop_logging_sink)
  have c: "sink_view (emit [Stderr m] x) = sink_view x"
    "sink_view (emit [Stdout m] x) = sink_view x"
    "sink_view (x\<lparr>udid := v\<rparr>) = sink_view x"
    "sink_view (x\<lparr>quit_flag := q\<rparr>) = sink_view x" for m x v q
    by (simp_all add: sink_view_def emit_def is_teardown_def is_sink_close_def)
  show ?thesis
  proof (cases "start_logging env (if udid s = None then s\<lparr>udid := Some (ev_udid ev)\<rparr> else s)")
    case (Pair rc s2)
    then have "sink_view s2 = sink_view s"
      using a [of "if udid s = None then s\<lparr>udid := Some (ev_udid ev)\<rparr> else s"] c(3)
      by (simp split: if_splits)
    then show ?thesis
      using assms Pair b c
      by (auto simp add: device_event_cb_def Let_def split: if_splits option.splits)
  qed
qed

lemma deliver_sink:
  assumes "deliver max_size h s = Inr s'"
  shows "sink_view s' = sink_view s"
proof (cases h)
  case (Signal sg)
  then show ?thesis
    using assms
    by (cases sg) (auto simp add: deliver_def deliver_signal_def clean_exit_def emit_def
        sink_view_def is_teardown_def is_sink_close_def)
next
  case (Device_event env ev)
  then show ?thesis using assms device_event_cb_sink [of env ev s s'] by (simp add: deliver_def)
next
  case (Frame data data_len)
  then have d: "deliver_frame max_size data data_len s = Inr s'"
    using assms by (simp add: deliver_def)
  show ?thesis
  proof (cases "bt_packet_logger s = None")
    case True
    then show ?thesis using d by (simp add: deliver_frame_def)
  next
    case False
    show ?thesis
    proof (cases "log_format s")
      case LOG_FORMAT_PCAP
      then obtain b where "bt_packet_logger_callback_pcap max_size data data_len s = Inr (b, s')"
        using d False
        by (cases "bt_packet_logger_callback_pcap max_size data data_len s")
          (auto simp add: deliver_frame_def)
      from callback_pcap_cases [OF this] show ?thesis
        by (auto simp add: emit_def sink_view_def is_teardown_def is_sink_close_def
            split: if_splits)
    next
      case LOG_FORMAT_PACKETLOGGER
      then show ?thesis
        using d False
        by (auto simp add: deliver_frame_def bt_packet_logger_callback_packetlogger_def emit_def
            sink_view_def is_teardown_def is_sink_close_def split: if_splits)
    qed
  qed
qed

lemma run_batch_sink:
  assumes "run_batch max_size hs s = Inr s'"
  shows "sink_view s' = sink_view s"
  using assms
proof (induction hs arbitrary: s)
  case Nil
  then show ?case by simp
next
  case (Cons h hs)
  then show ?case
    by (cases "deliver max_size h s") (auto dest: deliver_sink)
qed

lemma wait_loop_sink:
  assumes "wait_loop max_size bs s = Inr s'"
  shows "sink_view s' = sink_view s \<and> quit_flag s' \<noteq> 0"
  using assms
proof (induction bs arbitrary: s)
  case Nil
  then show ?case by (simp split: if_splits)
next
  case (Cons b bs)
  show ?case
  proof (cases "quit_flag s = 0")
    case False
    then show ?thesis using Cons.prems by simp
  next
    case True
    then obtain s1 where s1: "run_batch max_size b s = Inr s1" "wait_loop max_size bs s1 = Inr s'"
      using Cons.prems by (cases "run_batch max_size b s") auto
    from Cons.IH [OF s1(2)] run_batch_sink [OF s1(1)] show ?thesis by simp
  qed
qed

lemma parse_opts_unopened:
  assumes "parse_opts cs s = Inr s'" and "unopened s"
  shows "unopened s'"
  using assms
  by (induction cs s rule: parse_opts.induct)
    (auto simp add: unopened_def emit_def is_teardown_def is_sink_close_def split: if_splits)

lemma main_startup_sink:
  assumes "main_startup env = Inr s0"
  shows "filter is_teardown (trace s0) = []
    \<and> (case log_format s0 of
          LOG_FORMAT_PCAP \<Rightarrow>
            pcap_dumper s0 = pcap_dump_open_result env \<and> packetlogger_fd s0 = - 1
        | LOG_FORMAT_PACKETLOGGER \<Rightarrow>
            pcap_dumper s0 = None \<and> packetlogger_fd s0 = open_result env
            \<and> 0 \<le> open_result env)"
proof -
  obtain s1 where s1: "parse_opts (opts env) initial_globals = Inr s1"
    using assms by (cases "parse_opts (opts env) initial_globals")
      (auto simp add: main_startup_def and_then_def)
  have "unopened initial_globals"
    by (simp add: unopened_def initial_globals_def)
  from parse_opts_unopened [OF s1 this] have u1: "unopened s1" .
  obtain s2 where s2: "main_output_file (positional env) s1 = Inr s2"
    using assms s1 by (cases "main_output_file (positional env) s1")
      (auto simp add: main_startup_def and_then_def)
  have u2: "unopened s2"
    using s2 u1
    by (auto simp add: main_output_file_def unopened_def emit_def is_teardown_def
        is_sink_close_def split: list.splits)
  obtain s3 where s3: "main_format s2 = Inr s3"
    using assms s1 s2 by (cases "main_format s2") (auto simp add: main_startup_def and_then_def)
  have u3: "unopened s3"
    using s3 u2 by (auto simp add: main_format_def unopened_def split: option.splits if_splits)
  obtain s4 where s4: "main_devices (num_devices env) s3 = Inr s4"
    using assms s1 s2 s3 by (cases "main_devices (num_devices env) s3")
      (auto simp add: main_startup_def and_then_def)
  have u4: "unopened s4"
    using s4 u3
    by (auto simp add: main_devices_def unopened_def emit_def Let_def is_teardown_def
        is_sink_close_def split: if_splits)
  obtain s5 where s5: "main_open (pcap_dump_open_result env) (open_result env) s4 = Inr s5"
    and s0: "s0 = emit [Event_subscribe] s5"
    using assms s1 s2 s3 s4
    by (cases "main_open (pcap_dump_open_result env) (open_result env) s4")
      (auto simp add: main_startup_def and_then_def)
  show ?thesis
    using s5 s0 u4
    by (cases "log_format s4")
      (auto simp add: main_open_def unopened_def emit_def Let_def is_teardown_def
        is_sink_close_def split: if_splits)
qed

lemma main_teardown_eq:
  "main_teardown s =
     Exited 0 (s\<lparr>bt_packet_logger := None, device := None,
       trace := trace s @ [Event_unsubscribe, Fflush_all]
         @ (case bt_packet_logger s of Some h \<Rightarrow> [Client_free (Some h)] | None \<Rightarrow> [])
         @ (case device s of Some d \<Rightarrow> [Idevice_free d] | None \<Rightarrow> [])
         @ (case pcap_dumper s of Some d \<Rightarrow> [Pcap_dump_close d] | None \<Rightarrow> [])
         @ (if 0 \<le> packetlogger_fd s then [Close_fd (packetlogger_fd s)] else [])\<rparr>)"
  by (simp add: main_teardown_def stop_logging_eq emit_def Let_def split: option.splits)

lemma filter_sink_close_teardown:
  assumes "filter is_teardown es = []"
  shows "filter is_sink_close es = []"
  using assms by (induction es) (auto simp add: is_teardown_def split: if_splits)

lemma stop_logging_twice: "stop_logging (stop_logging s) = emit [Fflush_all] (stop_logging s)"
  by (simp add: stop_logging_eq emit_def)

text \<open>
  Claim C7. Whenever \<^verbatim>\<open>main\<close> gets as far as its waiting loop and the loop ends, by a
  signal or by a detach under \<^verbatim>\<open>-x\<close>, the calls that follow are, in this order: the
  unsubscription, \<^verbatim>\<open>stop_logging\<close> (a flush, then the client freed if there is one, then
  the device freed if there is one), and the closing of the output. No unsubscription
  and no closing call comes earlier in the run, so the output is closed once; it is
  closed not at all only when there is none, which is when \<^verbatim>\<open>pcap_dump_open\<close> returned
  null. Stopping twice frees nothing twice: the second \<^verbatim>\<open>stop_logging\<close> only flushes.
\<close>

theorem teardown_order:
  assumes "main_startup env = Inr s0"
    and "wait_loop max_size (batches env) s0 = Inr s1"
  shows "\<exists>s'. main max_size env = Exited 0 s'
     \<and> quit_flag s1 \<noteq> 0
     \<and> filter is_teardown (trace s1) = []
     \<and> trace s' = trace s1 @ [Event_unsubscribe, Fflush_all]
         @ (case bt_packet_logger s1 of Some h \<Rightarrow> [Client_free (Some h)] | None \<Rightarrow> [])
         @ (case device s1 of Some d \<Rightarrow> [Idevice_free d] | None \<Rightarrow> [])
         @ (case pcap_dumper s1 of Some d \<Rightarrow> [Pcap_dump_close d] | None \<Rightarrow> [])
         @ (if 0 \<le> packetlogger_fd s1 then [Close_fd (packetlogger_fd s1)] else [])
     \<and> bt_packet_logger s' = None \<and> device s' = None
     \<and> stop_logging (stop_logging s1) = emit [Fflush_all] (stop_logging s1)
     \<and> length (filter is_sink_close (trace s')) =
         (if pcap_dumper s1 = None \<and> packetlogger_fd s1 < 0 then 0 else 1)
     \<and> (pcap_dumper s1 = None \<and> packetlogger_fd s1 < 0) =
         (log_format s1 = LOG_FORMAT_PCAP \<and> pcap_dump_open_result env = None)"
proof -
  define s' where "s' = s1\<lparr>bt_packet_logger := None, device := None,
       trace := trace s1 @ [Event_unsubscribe, Fflush_all]
         @ (case bt_packet_logger s1 of Some h \<Rightarrow> [Client_free (Some h)] | None \<Rightarrow> [])
         @ (case device s1 of Some d \<Rightarrow> [Idevice_free d] | None \<Rightarrow> [])
         @ (case pcap_dumper s1 of Some d \<Rightarrow> [Pcap_dump_close d] | None \<Rightarrow> [])
         @ (if 0 \<le> packetlogger_fd s1 then [Close_fd (packetlogger_fd s1)] else [])\<rparr>"
  have m: "main max_size env = Exited 0 s'"
    using assms by (simp add: main_def and_then_def main_teardown_eq s'_def)
  from wait_loop_sink [OF assms(2)]
  have v: "sink_view s1 = sink_view s0" and q: "quit_flag s1 \<noteq> 0" by simp_all
  from main_startup_sink [OF assms(1)] v
  have t: "filter is_teardown (trace s1) = []"
    and o: "case log_format s1 of
          LOG_FORMAT_PCAP \<Rightarrow>
            pcap_dumper s1 = pcap_dump_open_result env \<and> packetlogger_fd s1 = - 1
        | LOG_FORMAT_PACKETLOGGER \<Rightarrow>
            pcap_dumper s1 = None \<and> packetlogger_fd s1 = open_result env
            \<and> 0 \<le> open_result env"
    by (auto simp add: sink_view_def split: log_format_t.splits)
  have c: "filter is_sink_close (trace s1) = []"
    using t by (rule filter_sink_close_teardown)
  have n: "length (filter is_sink_close (trace s')) =
         (if pcap_dumper s1 = None \<and> packetlogger_fd s1 < 0 then 0 else 1)"
    using c o
    by (cases "log_format s1")
      (auto simp add: s'_def is_sink_close_def split: option.splits)
  have e: "(pcap_dumper s1 = None \<and> packetlogger_fd s1 < 0) =
         (log_format s1 = LOG_FORMAT_PCAP \<and> pcap_dump_open_result env = None)"
    using o by (cases "log_format s1") auto
  have f: "trace s' = trace s1 @ [Event_unsubscribe, Fflush_all]
         @ (case bt_packet_logger s1 of Some h \<Rightarrow> [Client_free (Some h)] | None \<Rightarrow> [])
         @ (case device s1 of Some d \<Rightarrow> [Idevice_free d] | None \<Rightarrow> [])
         @ (case pcap_dumper s1 of Some d \<Rightarrow> [Pcap_dump_close d] | None \<Rightarrow> [])
         @ (if 0 \<le> packetlogger_fd s1 then [Close_fd (packetlogger_fd s1)] else [])"
    "bt_packet_logger s' = None" "device s' = None"
    by (simp_all add: s'_def)
  from m q t f n e stop_logging_twice [of s1] show ?thesis by blast
qed

lemmas main_eval = main_def main_startup_def and_then_def main_output_file_def main_format_def
  main_devices_def main_open_def main_teardown_def out_filename_str_def nl_def phone_def

text \<open>
  The pcap capture ended by a terminate signal, and the PacketLogger capture ended by the
  phone's detach under \<^verbatim>\<open>-x\<close>.
\<close>

theorem teardown_order_witness:
  "(\<exists>s'. main 65535 run_signal = Exited 0 s'
      \<and> drop 14 (trace s') = [Event_unsubscribe, Fflush_all, Client_free (Some 2), Idevice_free 1,
           Pcap_dump_close 3]
      \<and> length (filter is_sink_close (trace s')) = 1)
   \<and> (\<exists>s'. main 65535 run_policy = Exited 0 s'
      \<and> drop 16 (trace s') = [Event_unsubscribe, Fflush_all, Close_fd 4]
      \<and> length (filter is_sink_close (trace s')) = 1)"
proof -
  let ?a0 = "initial_globals\<lparr>out_filename := Some ''out.pcap'', log_format_string := Some ''pcap'',
        pcap_dumper := Some 3, log_format := LOG_FORMAT_PCAP,
        trace := [Stdout (''Output File: out.pcap'' @ nl), Get_device_list,
          Stdout (''Output Format: PCAP'' @ nl), Pcap_dump_open ''out.pcap'', Event_subscribe]\<rparr>"
  let ?a1 = "initial_globals\<lparr>quit_flag := 1, udid := Some phone, device := Some 1,
        bt_packet_logger := Some 2,
        out_filename := Some ''out.pcap'', log_format_string := Some ''pcap'',
        pcap_dumper := Some 3, log_format := LOG_FORMAT_PCAP,
        trace := [Stdout (''Output File: out.pcap'' @ nl), Get_device_list,
          Stdout (''Output Format: PCAP'' @ nl), Pcap_dump_open ''out.pcap'', Event_subscribe,
          Idevice_new (Some phone) IDEVICE_LOOKUP_USBMUX, Lockdownd_handshake, Start_service,
          Start_capture (Some 2) LOG_FORMAT_PCAP, Stdout (''[connected:'' @ phone @ '']'' @ nl),
          Fflush_all,
          Pcap_dump (Some 3) \<lparr>tv_sec = 1, tv_usec = 2, caplen = 14, len = 14\<rparr>
            [0, 0, 0, 1, 4, 14, 4, 1, 3, 12, 0, 7, 8, 9],
          Pcap_dump_flush (Some 3), Stderr (nl @ ''Exiting...'' @ nl)]\<rparr>"
  have a0: "main_startup run_signal = Inr ?a0"
    by (simp add: run_signal_def main_eval initial_globals_def emit_def)
  have a1: "wait_loop 65535 (batches run_signal) ?a0 = Inr ?a1"
    by (simp add: run_signal_def event_eval callback_pcap_eval frame_event_def nl_def phone_def)
  from teardown_order [OF a0 a1] obtain s' where
    am: "main 65535 run_signal = Exited 0 s'"
    and at: "trace s' = trace ?a1 @ [Event_unsubscribe, Fflush_all]
         @ (case bt_packet_logger ?a1 of Some h \<Rightarrow> [Client_free (Some h)] | None \<Rightarrow> [])
         @ (case device ?a1 of Some d \<Rightarrow> [Idevice_free d] | None \<Rightarrow> [])
         @ (case pcap_dumper ?a1 of Some d \<Rightarrow> [Pcap_dump_close d] | None \<Rightarrow> [])
         @ (if 0 \<le> packetlogger_fd ?a1 then [Close_fd (packetlogger_fd ?a1)] else [])"
    and an: "length (filter is_sink_close (trace s')) =
         (if pcap_dumper ?a1 = None \<and> packetlogger_fd ?a1 < 0 then 0 else 1)"
    by blast
  have at': "drop 14 (trace s') = [Event_unsubscribe, Fflush_all, Client_free (Some 2),
      Idevice_free 1, Pcap_dump_close 3]"
    using at by (simp add: initial_globals_def)
  have an': "length (filter is_sink_close (trace s')) = 1"
    using an by (simp add: initial_globals_def)
  let ?b0 = "initial_globals\<lparr>exit_on_disconnect := 1, out_filename := Some ''out.pklg'',
        packetlogger_fd := 4,
        trace := [Stdout (''Output File: out.pklg'' @ nl), Get_device_list,
          Stdout (''Output Format: PacketLogger'' @ nl), Open_file ''out.pklg'', Event_subscribe]\<rparr>"
  let ?b1 = "initial_globals\<lparr>quit_flag := 1, exit_on_disconnect := 1, udid := Some phone,
        out_filename := Some ''out.pklg'', packetlogger_fd := 4,
        trace := [Stdout (''Output File: out.pklg'' @ nl), Get_device_list,
          Stdout (''Output Format: PacketLogger'' @ nl), Open_file ''out.pklg'', Event_subscribe,
          Idevice_new (Some phone) IDEVICE_LOOKUP_USBMUX, Lockdownd_handshake, Start_service,
          Start_capture (Some 2) LOG_FORMAT_PACKETLOGGER,
          Stdout (''[connected:'' @ phone @ '']'' @ nl), Fflush_all,
          Write_fd 4 [0, 0, 0, 3, 0, 0, 0, 1, 0, 0, 0, 0, 2, 42, 43],
          Fflush_all, Client_free (Some 2), Idevice_free 1,
          Stdout (''[disconnected:'' @ phone @ '']'' @ nl)]\<rparr>"
  have b0: "main_startup run_policy = Inr ?b0"
    by (simp add: run_policy_def main_eval initial_globals_def emit_def)
  have b1: "wait_loop 65535 (batches run_policy) ?b0 = Inr ?b1"
    by (simp add: run_policy_def event_eval bt_packet_logger_callback_packetlogger_def
        frame_acl_def nl_def phone_def)
  from teardown_order [OF b0 b1] obtain t' where
    bm: "main 65535 run_policy = Exited 0 t'"
    and bt: "trace t' = trace ?b1 @ [Event_unsubscribe, Fflush_all]
         @ (case bt_packet_logger ?b1 of Some h \<Rightarrow> [Client_free (Some h)] | None \<Rightarrow> [])
         @ (case device ?b1 of Some d \<Rightarrow> [Idevice_free d] | None \<Rightarrow> [])
         @ (case pcap_dumper ?b1 of Some d \<Rightarrow> [Pcap_dump_close d] | None \<Rightarrow> [])
         @ (if 0 \<le> packetlogger_fd ?b1 then [Close_fd (packetlogger_fd ?b1)] else [])"
    and bn: "length (filter is_sink_close (trace t')) =
         (if pcap_dumper ?b1 = None \<and> packetlogger_fd ?b1 < 0 then 0 else 1)"
    by blast
  have bt': "drop 16 (trace t') = [Event_unsubscribe, Fflush_all, Close_fd 4]"
    using bt by (simp add: initial_globals_def)
  have bn': "length (filter is_sink_close (trace t')) = 1"
    using bn by (simp add: initial_globals_def)
  from am at' an' bm bt' bn' show ?thesis by blast
qed

text \<open>Every return of \<^verbatim>\<open>main\<close> before the subscription, with the condition it is taken on.\<close>

lemma parse_opts_exit:
  assumes "parse_opts cs s = Inl out" and "Event_subscribe \<notin> set (trace s)"
  shows "\<exists>rc s'. out = Exited rc s' \<and> (rc = 0 \<or> rc = 2) \<and> Event_subscribe \<notin> set (trace s')"
  using assms
  by (induction cs s rule: parse_opts.induct) (auto simp add: emit_def split: if_splits)

lemma parse_opts_quiet:
  assumes "parse_opts cs s = Inr s'" and "Event_subscribe \<notin> set (trace s)"
  shows "Event_subscribe \<notin> set (trace s')"
  using assms
  by (induction cs s rule: parse_opts.induct) (auto simp add: emit_def split: if_splits)

lemma main_startup_exit:
  assumes "main_startup env = Inl out"
  shows "\<exists>rc s. out = Exited rc s \<and> Event_subscribe \<notin> set (trace s)
     \<and> (rc = 0 \<or> rc = 2
         \<or> (rc = - 1 \<and> num_devices env = 0 \<and> udid s = None)
         \<or> (rc = - 2 \<and> log_format s = LOG_FORMAT_PACKETLOGGER \<and> open_result env < 0))"
proof (cases "parse_opts (opts env) initial_globals")
  case (Inl o1)
  then have "out = o1" using assms by (simp add: main_startup_def and_then_def)
  then show ?thesis
    using parse_opts_exit [OF Inl] by (auto simp add: initial_globals_def)
next
  case (Inr s1)
  then have q1: "Event_subscribe \<notin> set (trace s1)"
    using parse_opts_quiet [OF Inr] by (simp add: initial_globals_def)
  show ?thesis
  proof (cases "positional env")
    case Nil
    then show ?thesis
      using assms Inr q1
      by (auto simp add: main_startup_def and_then_def main_output_file_def emit_def)
  next
    case (Cons f fs)
    define s2 where "s2 = emit [Stdout (''Output File: '' @ f @ nl)] (s1\<lparr>out_filename := Some f\<rparr>)"
    have o2: "main_output_file (positional env) s1 = Inr s2"
      by (simp add: main_output_file_def Cons s2_def)
    have q2: "Event_subscribe \<notin> set (trace s2)"
      using q1 by (simp add: s2_def emit_def)
    show ?thesis
    proof (cases "main_format s2")
      case (Inl o3)
      then show ?thesis
        using assms Inr o2 q2
        by (auto simp add: main_startup_def and_then_def main_format_def emit_def
            split: option.splits if_splits)
    next
      case s3: (Inr s3)
      then have q3: "Event_subscribe \<notin> set (trace s3)"
        using q2 by (auto simp add: main_format_def split: option.splits if_splits)
      show ?thesis
      proof (cases "main_devices (num_devices env) s3")
        case (Inl o4)
        then show ?thesis
          using assms Inr o2 s3 q3
          by (auto simp add: main_startup_def and_then_def main_devices_def emit_def Let_def
              split: if_splits)
      next
        case s4: (Inr s4)
        then have q4: "Event_subscribe \<notin> set (trace s4)"
          using q3 by (auto simp add: main_devices_def emit_def Let_def split: if_splits)
        show ?thesis
          using assms Inr o2 s3 s4 q4
          by (cases "log_format s4")
            (auto simp add: main_startup_def and_then_def main_open_def emit_def Let_def
              split: if_splits)
      qed
    qed
  qed
qed

text \<open>
  Claim C6 does not hold of the code. With \<^verbatim>\<open>-f pcap\<close> and an output file that
  \<^verbatim>\<open>pcap_dump_open\<close> cannot open, \<^verbatim>\<open>main\<close> does not return -2: it subscribes to the
  device events, waits, and returns 0 after the interrupt signal. With the default format
  and the same file it returns -2 before subscribing. The other returns of \<^verbatim>\<open>main\<close> are
  as the claim says (\<open>main_startup_exit\<close>).
\<close>

theorem unwritable_pcap_output:
  "main 65535 run_unwritable =
     Exited 0 (initial_globals\<lparr>quit_flag := 1, out_filename := Some ''/nonexistent/out.pcap'',
       log_format_string := Some ''pcap'', log_format := LOG_FORMAT_PCAP,
       trace := [Stdout (''Output File: /nonexistent/out.pcap'' @ nl), Get_device_list,
         Stdout (''Output Format: PCAP'' @ nl), Pcap_dump_open ''/nonexistent/out.pcap'',
         Event_subscribe, Stderr (nl @ ''Exiting...'' @ nl), Event_unsubscribe, Fflush_all]\<rparr>)
   \<and> main 65535 (run_unwritable\<lparr>opts := []\<rparr>) =
     Exited (- 2) (initial_globals\<lparr>out_filename := Some ''/nonexistent/out.pcap'',
       trace := [Stdout (''Output File: /nonexistent/out.pcap'' @ nl), Get_device_list,
         Stdout (''Output Format: PacketLogger'' @ nl), Open_file ''/nonexistent/out.pcap'',
         Stderr (''Failed to open file /nonexistent/out.pcap'' @ nl)]\<rparr>)"
  by (simp add: run_unwritable_def main_eval event_eval)

text \<open>The exit code of that run, and the subscription in its trace.\<close>

theorem unwritable_pcap_output_witness:
  "(case main 65535 run_unwritable of
      Exited rc s \<Rightarrow> rc = 0 \<and> Event_subscribe \<in> set (trace s) \<and> pcap_dumper s = None
    | Crashed f \<Rightarrow> False
    | Waiting s \<Rightarrow> False)"
  using unwritable_pcap_output by (simp add: initial_globals_def)

end
